theory Spec2Isabelle
  imports Main "HOL-Library.Multiset" "HOL-Library.Monad_Syntax" "HOL-Library.Word"
begin

section \<open>Values of the cluster client\<close>

text \<open>
  The command reads cluster objects as \<^verbatim>\<open>unstructured.Unstructured\<close>: a
  \<^verbatim>\<open>map[string]interface{}\<close> whose values are the dynamic types a decoded document
  holds. \<open>INil\<close> is the nil interface value, which is also what indexing a Go map gives
  for a key it does not have.

  A Go map is an association list. Its keys are distinct, and the order of the list is
  the order in which \<^verbatim>\<open>range\<close> visits the entries. Go leaves that order open, so
  a statement about a map is proved for every list.
\<close>

datatype iface =
    INil
  | IBool bool
  | IInt64 "64 word"
  | IFloat64 "64 word"
  | IString string
  | ISlice "iface list"
  | IMap "(string \<times> iface) list"

type_synonym gomap = "(string \<times> iface) list"

text \<open>\<^verbatim>\<open>m[k]\<close> on a \<^verbatim>\<open>map[string]interface{}\<close>.\<close>

definition index :: "gomap \<Rightarrow> string \<Rightarrow> iface" where
  "index m k = (case map_of m k of None \<Rightarrow> INil | Some v \<Rightarrow> v)"

text \<open>
  The type assertions \<^verbatim>\<open>v.(map[string]interface{})\<close> and \<^verbatim>\<open>v.(string)\<close> in
  their one-result form: the run-time panic is \<open>None\<close>.
\<close>

definition assert_map :: "iface \<Rightarrow> gomap option" where
  "assert_map v = (case v of IMap m \<Rightarrow> Some m | _ \<Rightarrow> None)"

definition assert_string :: "iface \<Rightarrow> string option" where
  "assert_string v = (case v of IString s \<Rightarrow> Some s | _ \<Rightarrow> None)"

record Unstructured =
  Object :: gomap

text \<open>
  The accessors of \<^verbatim>\<open>Unstructured\<close> that the command calls, after
  \<^verbatim>\<open>k8s.io/apimachinery\<close>: a nested field that is missing, or that has another type
  than the one asked for, reads as the empty string or the empty label map.
\<close>

fun NestedFieldNoCopy :: "iface \<Rightarrow> string list \<Rightarrow> iface option" where
  "NestedFieldNoCopy val [] = Some val"
| "NestedFieldNoCopy val (field # fs) =
     (case val of
        IMap m \<Rightarrow>
          (case map_of m field of
             None \<Rightarrow> None
           | Some v \<Rightarrow> NestedFieldNoCopy v fs)
      | _ \<Rightarrow> None)"

definition NestedString :: "gomap \<Rightarrow> string list \<Rightarrow> string option" where
  "NestedString obj fs =
     (case NestedFieldNoCopy (IMap obj) fs of
        Some (IString s) \<Rightarrow> Some s
      | _ \<Rightarrow> None)"

definition getNestedString :: "gomap \<Rightarrow> string list \<Rightarrow> string" where
  "getNestedString obj fs =
     (case NestedString obj fs of None \<Rightarrow> [] | Some s \<Rightarrow> s)"

fun stringEntries :: "gomap \<Rightarrow> (string \<times> string) list option" where
  "stringEntries [] = Some []"
| "stringEntries ((k, v) # m) =
     (case v of
        IString str \<Rightarrow> map_option ((#) (k, str)) (stringEntries m)
      | _ \<Rightarrow> None)"

definition NestedStringMap :: "gomap \<Rightarrow> string list \<Rightarrow> (string \<times> string) list option" where
  "NestedStringMap obj fs =
     (case NestedFieldNoCopy (IMap obj) fs of
        Some (IMap m) \<Rightarrow> stringEntries m
      | _ \<Rightarrow> None)"

definition GetName :: "Unstructured \<Rightarrow> string" where
  "GetName u = getNestedString (Object u) [''metadata'', ''name'']"

definition GetNamespace :: "Unstructured \<Rightarrow> string" where
  "GetNamespace u = getNestedString (Object u) [''metadata'', ''namespace'']"

definition GetLabels :: "Unstructured \<Rightarrow> (string \<times> string) list" where
  "GetLabels u =
     (case NestedStringMap (Object u) [''metadata'', ''labels''] of
        None \<Rightarrow> []
      | Some m \<Rightarrow> m)"

section \<open>The field projection\<close>

text \<open>
  Modelled from the spec: \<^verbatim>\<open>utils.BackupJobInfo\<close>, the output record, is declared
  outside the listing command. The spec gives it six string fields; \<open>BackupJobInfo0\<close>
  is its zero value \<^verbatim>\<open>utils.BackupJobInfo{}\<close>.
\<close>

record BackupJobInfo =
  Namespace :: string
  Name :: string
  Phase :: string
  CompletionTime :: string
  StartTime :: string
  Labels :: string

definition BackupJobInfo0 :: BackupJobInfo where
  "BackupJobInfo0 =
     \<lparr>Namespace = [], Name = [], Phase = [], CompletionTime = [], StartTime = [], Labels = []\<rparr>"

text \<open>\<^verbatim>\<open>fmt.Sprintf("%s:%s ", k, v)\<close>\<close>

definition Sprintf_label :: "string \<times> string \<Rightarrow> string" where
  "Sprintf_label kv = fst kv @ '':'' @ snd kv @ '' ''"

text \<open>
  \<^verbatim>\<open>buildBackupJobInfo(obj, info)\<close> writes through the pointer \<open>info\<close>; the model
  returns the record as it stands when the function returns, and \<open>None\<close> when a type
  assertion panics.
\<close>

definition buildBackupJobInfo :: "Unstructured \<Rightarrow> BackupJobInfo \<Rightarrow> BackupJobInfo option" where
  "buildBackupJobInfo obj info =
     (let info = fold (\<lambda>kv info. info\<lparr>Labels := Labels info @ Sprintf_label kv\<rparr>)
                   (GetLabels obj) info
      in
        if index (Object obj) ''status'' = INil then Some info
        else do {
          status \<leftarrow> assert_map (index (Object obj) ''status'');
          let info = info\<lparr>Name := GetName obj\<rparr>;
          let info = info\<lparr>Namespace := GetNamespace obj\<rparr>;
          info \<leftarrow>
            (if index status ''phase'' \<noteq> INil
             then map_option (\<lambda>s. info\<lparr>Phase := s\<rparr>) (assert_string (index status ''phase''))
             else Some info);
          info \<leftarrow>
            (if index status ''completionTimestamp'' \<noteq> INil
             then map_option (\<lambda>s. info\<lparr>CompletionTime := s\<rparr>)
                    (assert_string (index status ''completionTimestamp''))
             else Some info);
          info \<leftarrow>
            (if index status ''startTimestamp'' \<noteq> INil
             then map_option (\<lambda>s. info\<lparr>StartTime := s\<rparr>)
                    (assert_string (index status ''startTimestamp''))
             else Some info);
          Some info
        })"

section \<open>Errors\<close>

text \<open>
  A Go \<^verbatim>\<open>error\<close> is either a plain error, known by its message, or the aggregate of
  \<^verbatim>\<open>k8s.io/apimachinery/pkg/util/errors\<close>. A nil error is \<open>None\<close> of
  \<open>error option\<close>.
\<close>

datatype error =
    errorString string
  | aggregate "error list"

fun visit :: "error \<Rightarrow> string list" where
  "visit (errorString s) = [s]"
| "visit (aggregate es) = concat (map visit es)"

fun join :: "string \<Rightarrow> string list \<Rightarrow> string" where
  "join sep [] = []"
| "join sep [m] = m"
| "join sep (m # m' # ms) = m @ sep @ join sep (m' # ms)"

fun Error :: "error \<Rightarrow> string" where
  "Error (errorString s) = s"
| "Error (aggregate []) = []"
| "Error (aggregate [e]) = Error e"
| "Error (aggregate (e # e' # es)) =
     (let seenerrs = rev (remdups (rev (concat (map visit (e # e' # es)))))
      in if length seenerrs = 1 then join '', '' seenerrs
         else ''['' @ join '', '' seenerrs @ '']'')"

text \<open>\<^verbatim>\<open>utilerrors.NewAggregate\<close>: the empty list gives nil.\<close>

definition NewAggregate :: "error list \<Rightarrow> error option" where
  "NewAggregate errlist = (if length errlist = 0 then None else Some (aggregate errlist))"

section \<open>The collaborators\<close>

text \<open>
  The resource builder and the dynamic client belong to the cluster-client libraries.
  A builder is the function from the query that the chain of calls in \<open>Run\<close>
  configures to the \<^verbatim>\<open>resource.Result\<close> that \<^verbatim>\<open>Do()\<close> gives; a dynamic client is
  the function from resource, namespace and name to what \<^verbatim>\<open>Get\<close> returns.
\<close>

datatype GroupVersionResource = GroupVersionResource string string string

record RESTMapping =
  Resource :: GroupVersionResource

text \<open>
  An entry of the listing. The builder gives every entry it reads from the cluster its
  \<^verbatim>\<open>RESTMapping\<close>, so \<open>Mapping\<close> is not modelled as a pointer that may be nil.
\<close>

record Info =
  Namespace :: string
  Name :: string
  Mapping :: RESTMapping

definition ResourceMapping :: "Info \<Rightarrow> RESTMapping" where
  "ResourceMapping i = Mapping i"

record FilenameOptions =
  Filenames :: "string list"
  Kustomize :: string
  Recursive :: bool

record DescriberSettings =
  ShowEvents :: bool
  ChunkSize :: int

text \<open>
  The calls \<^verbatim>\<open>Unstructured()\<close>, \<^verbatim>\<open>ContinueOnError()\<close>, \<^verbatim>\<open>DefaultNamespace()\<close>
  and \<^verbatim>\<open>Flatten()\<close> take no argument and are the same in every run; the query
  records the arguments of the other calls.
\<close>

record Query =
  NamespaceParam :: string
  AllNamespacesParam :: bool
  FilenameParam :: "bool \<times> FilenameOptions"
  ResourceTypeOrNameArgs :: "bool \<times> string list"
  RequestChunksOf :: int

record Result =
  Err :: "error option"
  Infos :: "Info list \<times> error option"

type_synonym Builder = "Query \<Rightarrow> Result"

type_synonym Interface = "GroupVersionResource \<Rightarrow> string \<Rightarrow> string \<Rightarrow> error + Unstructured"

record RESTConfig =
  Host :: string

typedecl ResourceDescriber

record Factory =
  ToRawKubeConfigLoader_Namespace :: "string \<times> bool \<times> error option"
  DescriberFn :: "RESTMapping \<Rightarrow> error + ResourceDescriber"
  ToRESTConfig :: "error + RESTConfig"
  NewBuilder :: Builder

text \<open>The streams hold the bytes that have been written to them.\<close>

record IOStreams =
  In :: string
  Out :: string
  ErrOut :: string

section \<open>The listing command\<close>

text \<open>
  The fields of the options. \<open>NewBuilder\<close> is a function value and \<open>client\<close> an
  interface value, nil until \<open>Complete\<close> sets them. \<open>DescriberSettings\<close> and
  \<open>FilenameOptions\<close> are pointers that \<^verbatim>\<open>NewListCmd\<close> sets and nothing in the
  command assigns again, so they are modelled by what they point to.
\<close>

record ListOptions =
  Namespace :: string
  Describer :: "(RESTMapping \<Rightarrow> error + ResourceDescriber) option"
  NewBuilder :: "Builder option"
  BuilderArgs :: "string list"
  EnforceNamespace :: bool
  AllNamespaces :: bool
  DescriberSettings :: DescriberSettings
  FilenameOptions :: FilenameOptions
  client :: "Interface option"
  IOStreams :: IOStreams

text \<open>
  The options that \<^verbatim>\<open>NewListCmd\<close> builds for the command: every field is the zero
  value of its type, but for the settings and the streams.
\<close>

definition NewListCmd :: "IOStreams \<Rightarrow> ListOptions" where
  "NewListCmd streams =
     \<lparr>ListOptions.Namespace = [],
      Describer = None,
      NewBuilder = None,
      BuilderArgs = [],
      EnforceNamespace = False,
      AllNamespaces = False,
      DescriberSettings = \<lparr>ShowEvents = True, ChunkSize = 0\<rparr>,
      FilenameOptions = \<lparr>Filenames = [], Kustomize = [], Recursive = False\<rparr>,
      client = None,
      IOStreams = streams\<rparr>"

text \<open>
  \<open>Complete\<close> assigns to the fields of the receiver, so the model returns the options
  as they stand at the return together with the returned error. The constant
  \<^verbatim>\<open>types.BackupJobSourceName\<close> and the library function
  \<^verbatim>\<open>dynamic.NewForConfig\<close> are declared outside the listing command and are
  parameters.
\<close>

definition Complete ::
  "string \<Rightarrow> (RESTConfig \<Rightarrow> error + Interface) \<Rightarrow> ListOptions \<Rightarrow> Factory \<Rightarrow> string list
     \<Rightarrow> ListOptions \<times> error option" where
  "Complete BackupJobSourceName NewForConfig opts f args =
     (let (ns, enforce, err) = ToRawKubeConfigLoader_Namespace f;
          opts = opts\<lparr>ListOptions.Namespace := ns, EnforceNamespace := enforce\<rparr>
      in
        if err \<noteq> None then (opts, err)
        else
          let opts = (if AllNamespaces opts then opts\<lparr>EnforceNamespace := False\<rparr> else opts);
              opts = opts\<lparr>BuilderArgs := [BackupJobSourceName] @ args\<rparr>;
              opts = opts\<lparr>Describer := Some (\<lambda>mapping. DescriberFn f mapping)\<rparr>
          in
            (case ToRESTConfig f of
               Inl err \<Rightarrow> (opts, None)
             | Inr config \<Rightarrow>
                 (case NewForConfig config of
                    Inl err \<Rightarrow> (opts, Some err)
                  | Inr client' \<Rightarrow>
                      (opts\<lparr>client := Some client',
                             ListOptions.NewBuilder := Some (Factory.NewBuilder f)\<rparr>, None))))"

text \<open>
  The table of \<^verbatim>\<open>uitable\<close> is the list of its rows, each row the list of the cells
  given to \<^verbatim>\<open>AddRow\<close>.
\<close>

definition AddRow :: "string list list \<Rightarrow> string list \<Rightarrow> string list list" where
  "AddRow t row = t @ [row]"

text \<open>
  The variables of \<open>Run\<close> that the loop over \<open>infos\<close> updates, and the three ways one
  pass through the loop body ends: at the end of the body or at a \<^verbatim>\<open>continue\<close>, at
  the \<^verbatim>\<open>return err\<close> after \<^verbatim>\<open>Get\<close>, or in a panic.
\<close>

record locals =
  allErrs :: "error list"
  errs :: "string set"
  table :: "string list list"

datatype step = Continue locals | Return error | Panic

text \<open>
  The body of the loop. \<open>err\<close> is the variable of \<open>Run\<close> that was last assigned by
  \<^verbatim>\<open>r.Infos()\<close>: the \<^verbatim>\<open>obj, err := ...Get(...)\<close> further down declares a new
  \<open>err\<close> in the scope of the body, which the test after \<^verbatim>\<open>ResourceMapping()\<close> does
  not see.
\<close>

definition Run_iteration :: "ListOptions \<Rightarrow> error option \<Rightarrow> locals \<Rightarrow> Info \<Rightarrow> step" where
  "Run_iteration opts err vs info =
     (let backupJobInfo = BackupJobInfo0;
          mapping = ResourceMapping info
      in
        case err of
          Some e \<Rightarrow>
            if Error e \<in> errs vs then Continue vs
            else Continue (vs\<lparr>allErrs := allErrs vs @ [e], errs := insert (Error e) (errs vs)\<rparr>)
        | None \<Rightarrow>
            let backupJobInfo = backupJobInfo\<lparr>BackupJobInfo.Namespace := Info.Namespace info\<rparr>;
                backupJobInfo = backupJobInfo\<lparr>BackupJobInfo.Name := Info.Name info\<rparr>
            in
              (case client opts of
                 None \<Rightarrow> Panic
               | Some c \<Rightarrow>
                   (case c (Resource mapping) (ListOptions.Namespace opts) (Info.Name info) of
                      Inl e \<Rightarrow> Return e
                    | Inr obj \<Rightarrow>
                        (case buildBackupJobInfo obj backupJobInfo of
                           None \<Rightarrow> Panic
                         | Some backupJobInfo \<Rightarrow>
                             Continue (vs\<lparr>table := AddRow (table vs)
                               [BackupJobInfo.Namespace backupJobInfo,
                                BackupJobInfo.Name backupJobInfo,
                                Phase backupJobInfo,
                                CompletionTime backupJobInfo,
                                StartTime backupJobInfo]\<rparr>)))))"

fun Run_loop :: "ListOptions \<Rightarrow> error option \<Rightarrow> Info list \<Rightarrow> locals \<Rightarrow> step" where
  "Run_loop opts err [] vs = Continue vs"
| "Run_loop opts err (info # infos) vs =
     (case Run_iteration opts err vs info of
        Continue vs' \<Rightarrow> Run_loop opts err infos vs'
      | Return e \<Rightarrow> Return e
      | Panic \<Rightarrow> Panic)"

text \<open>
  \<open>Run\<close> gives the streams as it leaves them and how it ends. Calling the nil
  \<open>NewBuilder\<close> that a failed \<open>Complete\<close> leaves behind panics. \<open>Run_query\<close>
  is what the chain of builder calls configures before \<^verbatim>\<open>Do()\<close>.

  The rendering of the table belongs to \<^verbatim>\<open>uitable\<close> and to helm's
  \<^verbatim>\<open>output.EncodeTable\<close>, which are outside the repository. It is the parameter
  \<open>EncodeTable\<close> of \<open>Run\<close>: the function from the rows of a table to the bytes that
  \<^verbatim>\<open>output.EncodeTable\<close> writes for it. The library lays the cells out in columns and
  can cut a cell (one that holds a line feed is cut to the width of its column), so
  nothing is assumed about these bytes. The error of the write is discarded by \<open>Run\<close>.
\<close>

datatype outcome = Panicked | Returned "error option"

definition Run_query :: "ListOptions \<Rightarrow> Query" where
  "Run_query opts =
     \<lparr>NamespaceParam = ListOptions.Namespace opts,
      AllNamespacesParam = AllNamespaces opts,
      FilenameParam = (EnforceNamespace opts, FilenameOptions opts),
      ResourceTypeOrNameArgs = (True, BuilderArgs opts),
      RequestChunksOf = ChunkSize (DescriberSettings opts)\<rparr>"

definition Run :: "(string list list \<Rightarrow> string) \<Rightarrow> ListOptions \<Rightarrow> IOStreams \<times> outcome" where
  "Run EncodeTable opts =
     (case ListOptions.NewBuilder opts of
        None \<Rightarrow> (IOStreams opts, Panicked)
      | Some newBuilder \<Rightarrow>
          let r = newBuilder (Run_query opts);
              err = Err r
          in
            if err \<noteq> None then (IOStreams opts, Returned err)
            else
              let (infos, err) = Infos r
              in
                if err \<noteq> None then (IOStreams opts, Returned err)
                else
                  (case Run_loop opts err infos
                         \<lparr>allErrs = [],
                          errs = {},
                          table = AddRow []
                            [''NAMESPACE'', ''NAME'', ''PHASE'', ''COMPLETION_TIME'',
                             ''CREATE_TIME'']\<rparr> of
                    Panic \<Rightarrow> (IOStreams opts, Panicked)
                  | Return e \<Rightarrow> (IOStreams opts, Returned (Some e))
                  | Continue vs \<Rightarrow>
                      let io = (IOStreams opts)
                            \<lparr>Out := Out (IOStreams opts) @ EncodeTable (table vs)\<rparr>;
                          io =
                            (if length infos = 0 \<and> length (allErrs vs) = 0
                             then
                               (if AllNamespaces opts
                                then io\<lparr>ErrOut := ErrOut io @ ''No resources found'' @ [CHR 0x0A]\<rparr>
                                else io\<lparr>ErrOut := ErrOut io @ ''No resources found in ''
                                       @ ListOptions.Namespace opts @ '' namespace.''
                                       @ [CHR 0x0A]\<rparr>)
                             else io)
                      in (io, Returned (NewAggregate (allErrs vs)))))"

section \<open>Reading the labels back\<close>

text \<open>
  The reading of a \<open>Labels\<close> string that the claim about the labels speaks of, written
  after the format \<^verbatim>\<open>"%s:%s "\<close>: a piece ends at each space, and a piece is cut
  into key and value at its first colon. It is no part of the command.
\<close>

fun pieces :: "string \<Rightarrow> string \<Rightarrow> string list" where
  "pieces cur [] = []"
| "pieces cur (c # cs) =
     (if c = CHR '' '' then rev cur # pieces [] cs else pieces (c # cur) cs)"

definition parse_piece :: "string \<Rightarrow> string \<times> string" where
  "parse_piece p =
     (takeWhile (\<lambda>c. c \<noteq> CHR '':'') p, tl (dropWhile (\<lambda>c. c \<noteq> CHR '':'') p))"

definition parse_labels :: "string \<Rightarrow> (string \<times> string) list" where
  "parse_labels s = map parse_piece (pieces [] s)"

section \<open>The listing without the aggregation of errors\<close>

text \<open>
  \<open>Run_without_aggregation\<close> is \<open>Run\<close> with the test of \<open>err\<close> after
  \<^verbatim>\<open>ResourceMapping()\<close> deleted, together with \<open>allErrs\<close> and \<open>errs\<close>, which
  only that branch writes: the loop carries the table alone, the message for an empty
  listing depends on \<open>infos\<close> alone, and the return at the end is nil. It is what the
  claim about the unreachable branch says \<open>Run\<close> amounts to, and is compared with
  \<open>Run\<close> below.
\<close>

datatype listing = Listed "string list list" | Failed error | Crashed

fun list_rows :: "ListOptions \<Rightarrow> Info list \<Rightarrow> string list list \<Rightarrow> listing" where
  "list_rows opts [] t = Listed t"
| "list_rows opts (info # infos) t =
     (case client opts of
        None \<Rightarrow> Crashed
      | Some c \<Rightarrow>
          (case c (Resource (ResourceMapping info)) (ListOptions.Namespace opts)
                  (Info.Name info) of
             Inl e \<Rightarrow> Failed e
           | Inr obj \<Rightarrow>
               (case buildBackupJobInfo obj
                       (BackupJobInfo0\<lparr>BackupJobInfo.Namespace := Info.Namespace info,
                                        BackupJobInfo.Name := Info.Name info\<rparr>) of
                  None \<Rightarrow> Crashed
                | Some backupJobInfo \<Rightarrow>
                    list_rows opts infos
                      (AddRow t
                        [BackupJobInfo.Namespace backupJobInfo,
                         BackupJobInfo.Name backupJobInfo,
                         Phase backupJobInfo,
                         CompletionTime backupJobInfo,
                         StartTime backupJobInfo]))))"

definition Run_without_aggregation ::
  "(string list list \<Rightarrow> string) \<Rightarrow> ListOptions \<Rightarrow> IOStreams \<times> outcome" where
  "Run_without_aggregation EncodeTable opts =
     (case ListOptions.NewBuilder opts of
        None \<Rightarrow> (IOStreams opts, Panicked)
      | Some newBuilder \<Rightarrow>
          let r = newBuilder (Run_query opts)
          in
            if Err r \<noteq> None then (IOStreams opts, Returned (Err r))
            else if snd (Infos r) \<noteq> None then (IOStreams opts, Returned (snd (Infos r)))
            else
              (case list_rows opts (fst (Infos r))
                      (AddRow []
                        [''NAMESPACE'', ''NAME'', ''PHASE'', ''COMPLETION_TIME'',
                         ''CREATE_TIME'']) of
                 Crashed \<Rightarrow> (IOStreams opts, Panicked)
               | Failed e \<Rightarrow> (IOStreams opts, Returned (Some e))
               | Listed t \<Rightarrow>
                   let io = (IOStreams opts)\<lparr>Out := Out (IOStreams opts) @ EncodeTable t\<rparr>;
                       io =
                         (if length (fst (Infos r)) = 0
                          then
                            (if AllNamespaces opts
                             then io\<lparr>ErrOut := ErrOut io @ ''No resources found'' @ [CHR 0x0A]\<rparr>
                             else io\<lparr>ErrOut := ErrOut io @ ''No resources found in ''
                                    @ ListOptions.Namespace opts @ '' namespace.''
                                    @ [CHR 0x0A]\<rparr>)
                          else io)
                   in (io, Returned None)))"

section \<open>Concrete objects\<close>

text \<open>
  A backup job that has not been given a status yet, and the same job with its labels
  visited in the other order.
\<close>

definition bj1_no_status :: Unstructured where
  "bj1_no_status =
     \<lparr>Object =
        [(''metadata'', IMap [(''name'', IString ''bj1''), (''namespace'', IString ''default''),
           (''labels'', IMap [(''app'', IString ''db''), (''tier'', IString ''x'')])])]\<rparr>"

definition bj1_no_status_swapped :: Unstructured where
  "bj1_no_status_swapped =
     \<lparr>Object =
        [(''metadata'', IMap [(''name'', IString ''bj1''), (''namespace'', IString ''default''),
           (''labels'', IMap [(''tier'', IString ''x''), (''app'', IString ''db'')])])]\<rparr>"

text \<open>
  A job whose one label has a space and a colon in its value, and a job with two labels.
\<close>

definition bj_label_with_space :: Unstructured where
  "bj_label_with_space =
     \<lparr>Object = [(''metadata'', IMap [(''labels'', IMap [(''a'', IString ''b c:d'')])])]\<rparr>"

definition bj_two_labels :: Unstructured where
  "bj_two_labels =
     \<lparr>Object =
        [(''metadata'', IMap [(''labels'', IMap [(''a'', IString ''b''), (''c'', IString ''d'')])])]\<rparr>"

text \<open>Two jobs whose status does not have the shape the projection expects.\<close>

definition bj_status_string :: Unstructured where
  "bj_status_string =
     \<lparr>Object =
        [(''metadata'', IMap [(''name'', IString ''bj2''), (''namespace'', IString ''default'')]),
         (''status'', IString ''Completed'')]\<rparr>"

definition bj_phase_number :: Unstructured where
  "bj_phase_number =
     \<lparr>Object =
        [(''metadata'', IMap [(''name'', IString ''bj3''), (''namespace'', IString ''default'')]),
         (''status'', IMap [(''phase'', IInt64 3)])]\<rparr>"

text \<open>
  A cluster for the examples: the listing entries of the builder, a finished job, a job in
  another namespace, and two dynamic clients. \<open>cluster_default\<close> holds the jobs of
  the namespace \<open>default\<close>; \<open>cluster\<close> holds the job of \<open>prod\<close> as well.
  \<open>completed_options\<close> are the options after a successful \<open>Complete\<close> in the
  namespace \<open>default\<close>, for a builder that lists \<open>infos\<close>.
\<close>

definition backupjobs :: GroupVersionResource where
  "backupjobs = GroupVersionResource ''dataprotection.example.io'' ''v1alpha1'' ''backupjobs''"

definition listed :: "string \<Rightarrow> string \<Rightarrow> Info" where
  "listed ns name = \<lparr>Info.Namespace = ns, Name = name, Mapping = \<lparr>Resource = backupjobs\<rparr>\<rparr>"

definition bj5_completed :: Unstructured where
  "bj5_completed =
     \<lparr>Object =
        [(''metadata'', IMap [(''name'', IString ''bj5''), (''namespace'', IString ''default'')]),
         (''status'', IMap [(''phase'', IString ''Completed''),
            (''completionTimestamp'', IString ''2022-09-01T10:00:00Z''),
            (''startTimestamp'', IString ''2022-09-01T09:00:00Z'')])]\<rparr>"

definition bj6_prod :: Unstructured where
  "bj6_prod =
     \<lparr>Object =
        [(''metadata'', IMap [(''name'', IString ''bj6''), (''namespace'', IString ''prod'')]),
         (''status'', IMap [(''phase'', IString ''Running'')])]\<rparr>"

definition not_found :: error where
  "not_found = errorString ''backupjobs not found''"

definition cluster_default :: Interface where
  "cluster_default res ns name =
     (if ns = ''default'' \<and> name = ''bj1'' then Inr bj1_no_status
      else if ns = ''default'' \<and> name = ''bj2'' then Inr bj_status_string
      else if ns = ''default'' \<and> name = ''bj5'' then Inr bj5_completed
      else Inl not_found)"

definition cluster :: Interface where
  "cluster res ns name =
     (if ns = ''prod'' \<and> name = ''bj6'' then Inr bj6_prod
      else cluster_default res ns name)"

definition builder_listing :: "Info list \<Rightarrow> Builder" where
  "builder_listing infos q = \<lparr>Err = None, Infos = (infos, None)\<rparr>"

definition completed_options :: "Info list \<Rightarrow> Interface \<Rightarrow> bool \<Rightarrow> ListOptions" where
  "completed_options infos c alln =
     (NewListCmd \<lparr>In = [], Out = [], ErrOut = []\<rparr>)
       \<lparr>ListOptions.Namespace := ''default'',
        ListOptions.NewBuilder := Some (builder_listing infos),
        BuilderArgs := [''backupjobs''],
        AllNamespaces := alln,
        client := Some c\<rparr>"

text \<open>
  A renderer for the examples: the cells of a row as they stand, with a tab between
  them, and a line feed after every row. It stands in for the library's only there.
\<close>

definition plain_table :: "string list list \<Rightarrow> string" where
  "plain_table t = concat (map (\<lambda>row. join [CHR 0x09] row @ [CHR 0x0A]) t)"

definition factory :: "bool \<Rightarrow> error + RESTConfig \<Rightarrow> Factory" where
  "factory enforce config =
     \<lparr>ToRawKubeConfigLoader_Namespace = (''default'', enforce, None),
      DescriberFn = (\<lambda>mapping. Inl (errorString ''no describer'')),
      ToRESTConfig = config,
      NewBuilder = builder_listing []\<rparr>"

section \<open>The field projection: properties\<close>

lemma fold_Labels:
  "fold (\<lambda>kv info. info\<lparr>Labels := Labels info @ Sprintf_label kv\<rparr>) ls info =
     info\<lparr>Labels := Labels info @ concat (map Sprintf_label ls)\<rparr>"
  by (induction ls arbitrary: info) simp_all

lemma stringEntries_IString:
  "stringEntries (map (\<lambda>(k, v). (k, IString v)) labels) = Some labels"
  by (induction labels) auto

lemma GetLabels_labels:
  assumes "index (Object obj) ''metadata'' = IMap meta"
    and "index meta ''labels'' = IMap (map (\<lambda>(k, v). (k, IString v)) labels)"
  shows "GetLabels obj = labels"
  using assms
  by (auto simp: GetLabels_def NestedStringMap_def index_def stringEntries_IString
      split: option.splits)

lemma buildBackupJobInfo_Labels_eq:
  assumes "buildBackupJobInfo obj info = Some info'"
  shows "Labels info' = Labels info @ concat (map Sprintf_label (GetLabels obj))"
  using assms
  by (auto simp: buildBackupJobInfo_def fold_Labels Let_def split: if_splits bind_splits)

lemma GetLabels_bj1_no_status: "GetLabels bj1_no_status = [(''app'', ''db''), (''tier'', ''x'')]"
  by (simp add: bj1_no_status_def GetLabels_def NestedStringMap_def)

lemma pieces_piece:
  "CHR '' '' \<notin> set p \<Longrightarrow> pieces cur (p @ CHR '' '' # rest) = (rev cur @ p) # pieces [] rest"
  by (induction p arbitrary: cur) auto

lemma pieces_concat:
  "\<forall>p\<in>set ps. CHR '' '' \<notin> set p \<Longrightarrow> pieces [] (concat (map (\<lambda>p. p @ '' '') ps)) = ps"
proof (induction ps)
  case Nil
  show ?case by simp
next
  case (Cons p ps)
  then show ?case
    using pieces_piece [of p "[]" "concat (map (\<lambda>p. p @ '' '') ps)"] by simp
qed

lemma parse_piece_pair:
  "CHR '':'' \<notin> set k \<Longrightarrow> parse_piece (k @ CHR '':'' # v) = (k, v)"
  by (induction k) (auto simp: parse_piece_def)

lemma parse_labels_Sprintf_label:
  assumes "\<forall>(k, v) \<in> set ls. CHR '':'' \<notin> set k \<and> CHR '' '' \<notin> set k \<and> CHR '' '' \<notin> set v"
  shows "parse_labels (concat (map Sprintf_label ls)) = ls"
proof -
  have 1: "concat (map Sprintf_label ls) =
      concat (map (\<lambda>p. p @ '' '') (map (\<lambda>kv. fst kv @ '':'' @ snd kv) ls))"
    by (induction ls) (simp_all add: Sprintf_label_def)
  have 2: "\<forall>p\<in>set (map (\<lambda>kv. fst kv @ '':'' @ snd kv) ls). CHR '' '' \<notin> set p"
    using assms by auto
  have 3: "map parse_piece (map (\<lambda>kv. fst kv @ '':'' @ snd kv) ls) = ls"
    using assms by (induction ls) (auto simp: parse_piece_pair)
  show ?thesis
    by (simp only: parse_labels_def 1 pieces_concat [OF 2] 3)
qed

text \<open>
  C2, as the code has it. When the object has no status, \<open>buildBackupJobInfo\<close> returns
  before it reads the object's name and namespace: it appends the formatted labels to
  \<open>Labels\<close> and leaves \<open>Name\<close>, \<open>Namespace\<close>, \<open>Phase\<close>, \<open>CompletionTime\<close> and
  \<open>StartTime\<close> as the caller passed them. (\<open>Run\<close> passes a record whose name and
  namespace it has set from the listing entry, and whose other fields are empty.)
\<close>

theorem buildBackupJobInfo_no_status:
  assumes "index (Object obj) ''status'' = INil"
  shows "buildBackupJobInfo obj info =
     Some (info\<lparr>Labels := Labels info @ concat (map Sprintf_label (GetLabels obj))\<rparr>)"
  using assms by (simp add: buildBackupJobInfo_def fold_Labels)

theorem buildBackupJobInfo_no_status_witness:
  "index (Object bj1_no_status) ''status'' = INil \<and>
   buildBackupJobInfo bj1_no_status
       (BackupJobInfo0\<lparr>BackupJobInfo.Namespace := ''ns'', BackupJobInfo.Name := ''bj1''\<rparr>) =
     Some \<lparr>BackupJobInfo.Namespace = ''ns'', Name = ''bj1'', Phase = [], CompletionTime = [],
            StartTime = [], Labels = ''app:db tier:x ''\<rparr>"
proof -
  have h: "index (Object bj1_no_status) ''status'' = INil"
    by (simp add: bj1_no_status_def index_def)
  show ?thesis
    using h buildBackupJobInfo_no_status [OF h,
        of "BackupJobInfo0\<lparr>BackupJobInfo.Namespace := ''ns'', BackupJobInfo.Name := ''bj1''\<rparr>"]
    by (simp add: GetLabels_bj1_no_status BackupJobInfo0_def Sprintf_label_def)
qed

text \<open>
  The object carries the name \<open>bj1\<close> and the namespace \<open>default\<close>; projected into
  the zero record, it leaves \<open>Name\<close> and \<open>Namespace\<close> empty.
\<close>

theorem buildBackupJobInfo_no_status_counterexample:
  "index (Object bj1_no_status) ''status'' = INil \<and>
   GetName bj1_no_status = ''bj1'' \<and> GetNamespace bj1_no_status = ''default'' \<and>
   buildBackupJobInfo bj1_no_status BackupJobInfo0 =
     Some \<lparr>BackupJobInfo.Namespace = [], Name = [], Phase = [], CompletionTime = [],
            StartTime = [], Labels = ''app:db tier:x ''\<rparr>"
  by (simp add: bj1_no_status_def index_def GetName_def GetNamespace_def getNestedString_def
      NestedString_def buildBackupJobInfo_def GetLabels_def NestedStringMap_def
      BackupJobInfo0_def Sprintf_label_def)

text \<open>
  C7, as the code has it. Let \<open>labels\<close> be the label mapping of the object (the
  entries of \<open>metadata.labels\<close>, all of them strings). When \<open>buildBackupJobInfo\<close>
  returns, it has appended to \<open>Labels\<close> one piece \<open>key:value\<close> followed by one space
  for every entry of the mapping, each entry once: the pieces are those of a list of pairs
  with the same multiset as the mapping's entries, in the order of the visit. When no key
  holds a colon or a space and no value holds a space, the pairs read back from the
  appended text are, as a multiset, the entries of the mapping.
\<close>

theorem buildBackupJobInfo_Labels:
  assumes "index (Object obj) ''metadata'' = IMap meta"
    and "index meta ''labels'' = IMap (map (\<lambda>(k, v). (k, IString v)) labels)"
    and "buildBackupJobInfo obj info = Some info'"
  shows "(\<exists>ps. mset ps = mset labels \<and>
            Labels info' = Labels info @ concat (map (\<lambda>(k, v). k @ '':'' @ v @ '' '') ps)) \<and>
         ((\<forall>(k, v) \<in> set labels.
              CHR '':'' \<notin> set k \<and> CHR '' '' \<notin> set k \<and> CHR '' '' \<notin> set v) \<longrightarrow>
            mset (parse_labels (drop (length (Labels info)) (Labels info'))) = mset labels)"
proof -
  have l: "Labels info' = Labels info @ concat (map Sprintf_label (GetLabels obj))"
    using assms(3) by (rule buildBackupJobInfo_Labels_eq)
  have g: "GetLabels obj = labels"
    using assms(1,2) by (rule GetLabels_labels)
  have s: "Sprintf_label = (\<lambda>(k, v). k @ '':'' @ v @ '' '')"
    by (auto simp: Sprintf_label_def fun_eq_iff)
  have "\<exists>ps. mset ps = mset labels \<and>
            Labels info' = Labels info @ concat (map (\<lambda>(k, v). k @ '':'' @ v @ '' '') ps)"
    using l g s by auto
  moreover have "mset (parse_labels (drop (length (Labels info)) (Labels info'))) = mset labels"
    if "\<forall>(k, v) \<in> set labels.
              CHR '':'' \<notin> set k \<and> CHR '' '' \<notin> set k \<and> CHR '' '' \<notin> set v"
    using parse_labels_Sprintf_label [OF that] l g by simp
  ultimately show ?thesis by blast
qed

theorem buildBackupJobInfo_Labels_witness:
  "(\<exists>ps. mset ps = mset [(''app'', ''db''), (''tier'', ''x'')] \<and>
      ''app:db tier:x '' = concat (map (\<lambda>(k, v). k @ '':'' @ v @ '' '') ps)) \<and>
   mset (parse_labels ''app:db tier:x '') = mset [(''app'', ''db''), (''tier'', ''x'')] \<and>
   mset (parse_labels ''tier:x app:db '') = mset [(''app'', ''db''), (''tier'', ''x'')]"
proof -
  let ?i = "\<lparr>BackupJobInfo.Namespace = [], Name = [], Phase = [], CompletionTime = [],
            StartTime = [], Labels = ''app:db tier:x ''\<rparr>"
  let ?j = "\<lparr>BackupJobInfo.Namespace = [], Name = [], Phase = [], CompletionTime = [],
            StartTime = [], Labels = ''tier:x app:db ''\<rparr>"
  have a: "index (Object bj1_no_status) ''metadata'' =
      IMap [(''name'', IString ''bj1''), (''namespace'', IString ''default''),
           (''labels'', IMap [(''app'', IString ''db''), (''tier'', IString ''x'')])]"
    by (simp add: bj1_no_status_def index_def)
  have b: "index [(''name'', IString ''bj1''), (''namespace'', IString ''default''),
           (''labels'', IMap [(''app'', IString ''db''), (''tier'', IString ''x'')])] ''labels'' =
      IMap (map (\<lambda>(k, v). (k, IString v)) [(''app'', ''db''), (''tier'', ''x'')])"
    by (simp add: index_def)
  have c: "buildBackupJobInfo bj1_no_status BackupJobInfo0 = Some ?i"
    by (simp add: bj1_no_status_def index_def buildBackupJobInfo_def GetLabels_def
        NestedStringMap_def BackupJobInfo0_def Sprintf_label_def)
  have a': "index (Object bj1_no_status_swapped) ''metadata'' =
      IMap [(''name'', IString ''bj1''), (''namespace'', IString ''default''),
           (''labels'', IMap [(''tier'', IString ''x''), (''app'', IString ''db'')])]"
    by (simp add: bj1_no_status_swapped_def index_def)
  have b': "index [(''name'', IString ''bj1''), (''namespace'', IString ''default''),
           (''labels'', IMap [(''tier'', IString ''x''), (''app'', IString ''db'')])] ''labels'' =
      IMap (map (\<lambda>(k, v). (k, IString v)) [(''tier'', ''x''), (''app'', ''db'')])"
    by (simp add: index_def)
  have c': "buildBackupJobInfo bj1_no_status_swapped BackupJobInfo0 = Some ?j"
    by (simp add: bj1_no_status_swapped_def index_def buildBackupJobInfo_def GetLabels_def
        NestedStringMap_def BackupJobInfo0_def Sprintf_label_def)
  have d: "\<forall>(k, v) \<in> set [(''app'', ''db''), (''tier'', ''x'')].
      CHR '':'' \<notin> set k \<and> CHR '' '' \<notin> set k \<and> CHR '' '' \<notin> set v"
    and d': "\<forall>(k, v) \<in> set [(''tier'', ''x''), (''app'', ''db'')].
      CHR '':'' \<notin> set k \<and> CHR '' '' \<notin> set k \<and> CHR '' '' \<notin> set v"
    by simp_all
  show ?thesis
    using buildBackupJobInfo_Labels [OF a b c] buildBackupJobInfo_Labels [OF a' b' c'] d d'
    by (simp add: BackupJobInfo0_def)
qed

text \<open>
  Without that condition the pairs cannot be read back: the mapping with the one entry
  \<open>a\<close>, \<open>b c:d\<close> and the mapping with the two entries \<open>a\<close>, \<open>b\<close> and \<open>c\<close>,
  \<open>d\<close> give the same string.
\<close>

theorem buildBackupJobInfo_Labels_counterexample:
  "GetLabels bj_label_with_space = [(''a'', ''b c:d'')] \<and>
   GetLabels bj_two_labels = [(''a'', ''b''), (''c'', ''d'')] \<and>
   map_option Labels (buildBackupJobInfo bj_label_with_space BackupJobInfo0) = Some ''a:b c:d '' \<and>
   map_option Labels (buildBackupJobInfo bj_two_labels BackupJobInfo0) = Some ''a:b c:d '' \<and>
   parse_labels ''a:b c:d '' = [(''a'', ''b''), (''c'', ''d'')] \<and>
   mset [(''a'', ''b''), (''c'', ''d'')] \<noteq> mset [(''a'', ''b c:d'')]"
  by (simp add: bj_label_with_space_def bj_two_labels_def GetLabels_def NestedStringMap_def
      buildBackupJobInfo_def index_def BackupJobInfo0_def Sprintf_label_def parse_labels_def
      parse_piece_def)

text \<open>
  C8. When the status of the object is present and is not a string-keyed mapping, or is
  such a mapping in which \<open>phase\<close>, \<open>completionTimestamp\<close> or \<open>startTimestamp\<close> is
  present and is not a string, \<open>buildBackupJobInfo\<close> ends in the panic of the type
  assertion: it has no error result, and it does not skip the field.
\<close>

theorem buildBackupJobInfo_malformed_status_panics:
  assumes "index (Object obj) ''status'' \<noteq> INil"
    and "(\<forall>m. index (Object obj) ''status'' \<noteq> IMap m) \<or>
         (\<exists>m k. index (Object obj) ''status'' = IMap m \<and>
            k \<in> {''phase'', ''completionTimestamp'', ''startTimestamp''} \<and>
            index m k \<noteq> INil \<and> (\<forall>s. index m k \<noteq> IString s))"
  shows "buildBackupJobInfo obj info = None"
proof -
  have a: "assert_map v = None" if "\<forall>m. v \<noteq> IMap m" for v
    using that by (cases v) (simp_all add: assert_map_def)
  have b: "assert_string v = None" if "\<forall>s. v \<noteq> IString s" for v
    using that by (cases v) (simp_all add: assert_string_def)
  from assms(2) show ?thesis
  proof
    assume "\<forall>m. index (Object obj) ''status'' \<noteq> IMap m"
    then show ?thesis
      using assms(1) by (simp add: buildBackupJobInfo_def a)
  next
    assume "\<exists>m k. index (Object obj) ''status'' = IMap m \<and>
            k \<in> {''phase'', ''completionTimestamp'', ''startTimestamp''} \<and>
            index m k \<noteq> INil \<and> (\<forall>s. index m k \<noteq> IString s)"
    then obtain m k where m: "index (Object obj) ''status'' = IMap m"
      and k: "k \<in> {''phase'', ''completionTimestamp'', ''startTimestamp''}"
      and p: "index m k \<noteq> INil" and s: "assert_string (index m k) = None"
      using b by blast
    from k consider "k = ''phase''" | "k = ''completionTimestamp''" | "k = ''startTimestamp''"
      by blast
    then show ?thesis
    proof cases
      case 1
      then show ?thesis using m p s
        by (simp add: buildBackupJobInfo_def assert_map_def)
    next
      case 2
      then show ?thesis using m p s
        by (simp add: buildBackupJobInfo_def assert_map_def Let_def split: bind_splits)
    next
      case 3
      then show ?thesis using m p s
        by (simp add: buildBackupJobInfo_def assert_map_def Let_def split: bind_splits)
    qed
  qed
qed

theorem buildBackupJobInfo_malformed_status_panics_witness:
  "buildBackupJobInfo bj_status_string BackupJobInfo0 = None \<and>
   buildBackupJobInfo bj_phase_number BackupJobInfo0 = None"
proof -
  have a: "index (Object bj_status_string) ''status'' = IString ''Completed''"
    by (simp add: bj_status_string_def index_def)
  have b: "index (Object bj_phase_number) ''status'' = IMap [(''phase'', IInt64 3)]"
    by (simp add: bj_phase_number_def index_def)
  have c: "index [(''phase'', IInt64 3)] ''phase'' = IInt64 3"
    by (simp add: index_def)
  have "buildBackupJobInfo bj_status_string BackupJobInfo0 = None"
    by (rule buildBackupJobInfo_malformed_status_panics) (simp_all add: a)
  moreover have "buildBackupJobInfo bj_phase_number BackupJobInfo0 = None"
  proof (rule buildBackupJobInfo_malformed_status_panics)
    show "index (Object bj_phase_number) ''status'' \<noteq> INil"
      by (simp add: b)
    have "index (Object bj_phase_number) ''status'' = IMap [(''phase'', IInt64 3)] \<and>
        ''phase'' \<in> {''phase'', ''completionTimestamp'', ''startTimestamp''} \<and>
        index [(''phase'', IInt64 3)] ''phase'' \<noteq> INil \<and>
        (\<forall>s. index [(''phase'', IInt64 3)] ''phase'' \<noteq> IString s)"
      by (simp add: b c)
    then show "(\<forall>m. index (Object bj_phase_number) ''status'' \<noteq> IMap m) \<or>
         (\<exists>m k. index (Object bj_phase_number) ''status'' = IMap m \<and>
            k \<in> {''phase'', ''completionTimestamp'', ''startTimestamp''} \<and>
            index m k \<noteq> INil \<and> (\<forall>s. index m k \<noteq> IString s))"
      by blast
  qed
  ultimately show ?thesis by simp
qed

text \<open>
  The malformed shapes of C8 are the only ones on which the projection panics.
\<close>

lemma buildBackupJobInfo_returns_iff:
  "buildBackupJobInfo obj info \<noteq> None \<longleftrightarrow>
     index (Object obj) ''status'' = INil \<or>
     (\<exists>m. index (Object obj) ''status'' = IMap m \<and>
        (\<forall>k \<in> {''phase'', ''completionTimestamp'', ''startTimestamp''}.
           index m k = INil \<or> (\<exists>s. index m k = IString s)))"
  by (cases "index (Object obj) ''status''")
    (auto simp: buildBackupJobInfo_def assert_map_def assert_string_def Let_def
      split: bind_splits iface.splits)

section \<open>The loop of Run: properties\<close>

text \<open>
  With a nil \<open>err\<close>, one pass through the body of the loop, and the loop, do what
  \<open>list_rows\<close> does to the table, and leave \<open>allErrs\<close> and \<open>errs\<close> alone.
\<close>

lemma Run_iteration_nil_err:
  "Run_iteration opts None vs info =
     (case list_rows opts [info] (table vs) of
        Listed t \<Rightarrow> Continue (vs\<lparr>table := t\<rparr>)
      | Failed e \<Rightarrow> Return e
      | Crashed \<Rightarrow> Panic)"
  by (simp add: Run_iteration_def Let_def split: option.splits sum.splits)

lemma list_rows_Cons:
  "list_rows opts (info # infos) t =
     (case list_rows opts [info] t of
        Listed t' \<Rightarrow> list_rows opts infos t'
      | Failed e \<Rightarrow> Failed e
      | Crashed \<Rightarrow> Crashed)"
  by (simp split: option.splits sum.splits)

lemma Run_loop_nil_err:
  "Run_loop opts None infos vs =
     (case list_rows opts infos (table vs) of
        Listed t \<Rightarrow> Continue (vs\<lparr>table := t\<rparr>)
      | Failed e \<Rightarrow> Return e
      | Crashed \<Rightarrow> Panic)"
proof (induction infos arbitrary: vs)
  case Nil
  show ?case by simp
next
  case (Cons info infos)
  show ?case
  proof (cases "list_rows opts [info] (table vs)")
    case (Listed t)
    then show ?thesis
      using Cons.IH [of "vs\<lparr>table := t\<rparr>"]
      by (simp only: Run_loop.simps Run_iteration_nil_err list_rows_Cons [of opts info infos])
         (simp split: listing.splits)
  next
    case (Failed e)
    then show ?thesis
      by (simp only: Run_loop.simps Run_iteration_nil_err list_rows_Cons [of opts info infos])
         simp
  next
    case Crashed
    then show ?thesis
      by (simp only: Run_loop.simps Run_iteration_nil_err list_rows_Cons [of opts info infos])
         simp
  qed
qed

lemma list_rows_append:
  "list_rows opts (xs @ ys) t =
     (case list_rows opts xs t of
        Listed t' \<Rightarrow> list_rows opts ys t'
      | Failed e \<Rightarrow> Failed e
      | Crashed \<Rightarrow> Crashed)"
  by (induction xs arbitrary: t) (simp_all split: option.splits sum.splits)

lemma list_rows_all_projected:
  assumes "client opts = Some c"
    and "map (\<lambda>info. c (Resource (ResourceMapping info)) (ListOptions.Namespace opts)
                (Info.Name info)) infos = map Inr objs"
    and "map (\<lambda>(info, obj). buildBackupJobInfo obj
                (BackupJobInfo0\<lparr>BackupJobInfo.Namespace := Info.Namespace info,
                                 BackupJobInfo.Name := Info.Name info\<rparr>)) (zip infos objs) =
         map Some bjis"
  shows "list_rows opts infos t =
     Listed (t @ map (\<lambda>b. [BackupJobInfo.Namespace b, BackupJobInfo.Name b, Phase b,
                            CompletionTime b, StartTime b]) bjis)"
  using assms(2,3)
proof (induction infos arbitrary: objs bjis t)
  case Nil
  then show ?case by simp
next
  case (Cons info infos)
  from Cons.prems(1) obtain obj objs' where objs: "objs = obj # objs'"
    by (cases objs) auto
  from Cons.prems(2) objs obtain b bjis' where bjis: "bjis = b # bjis'"
    by (cases bjis) auto
  show ?case
    using Cons.prems Cons.IH [of objs' bjis' "AddRow t [BackupJobInfo.Namespace b, BackupJobInfo.Name b, Phase b,
                            CompletionTime b, StartTime b]"] assms(1)
    by (simp add: objs bjis AddRow_def)
qed

lemma list_rows_prefix:
  assumes "client opts = Some c"
    and "\<forall>j<length xs. \<exists>obj.
           c (Resource (ResourceMapping (xs ! j))) (ListOptions.Namespace opts)
             (Info.Name (xs ! j)) = Inr obj \<and>
           buildBackupJobInfo obj
             (BackupJobInfo0\<lparr>BackupJobInfo.Namespace := Info.Namespace (xs ! j),
                              BackupJobInfo.Name := Info.Name (xs ! j)\<rparr>) \<noteq> None"
  shows "\<exists>t'. list_rows opts xs t = Listed t'"
  using assms(2)
proof (induction xs arbitrary: t)
  case Nil
  then show ?case by simp
next
  case (Cons x xs)
  from Cons.prems [rule_format, of 0] obtain obj b where
    o: "c (Resource (ResourceMapping x)) (ListOptions.Namespace opts) (Info.Name x) = Inr obj"
    and b: "buildBackupJobInfo obj
             (BackupJobInfo0\<lparr>BackupJobInfo.Namespace := Info.Namespace x,
                              BackupJobInfo.Name := Info.Name x\<rparr>) = Some b"
    by auto
  have "\<forall>j<length xs. \<exists>obj.
           c (Resource (ResourceMapping (xs ! j))) (ListOptions.Namespace opts)
             (Info.Name (xs ! j)) = Inr obj \<and>
           buildBackupJobInfo obj
             (BackupJobInfo0\<lparr>BackupJobInfo.Namespace := Info.Namespace (xs ! j),
                              BackupJobInfo.Name := Info.Name (xs ! j)\<rparr>) \<noteq> None"
    using Cons.prems by (metis Suc_less_eq length_Cons nth_Cons_Suc)
  from Cons.IH [OF this] show ?case
    using assms(1) o b by simp
qed

lemma list_rows_Get_fails:
  assumes "client opts = Some c"
    and "k < length infos"
    and "\<forall>j<k. \<exists>obj.
           c (Resource (ResourceMapping (infos ! j))) (ListOptions.Namespace opts)
             (Info.Name (infos ! j)) = Inr obj \<and>
           buildBackupJobInfo obj
             (BackupJobInfo0\<lparr>BackupJobInfo.Namespace := Info.Namespace (infos ! j),
                              BackupJobInfo.Name := Info.Name (infos ! j)\<rparr>) \<noteq> None"
    and "c (Resource (ResourceMapping (infos ! k))) (ListOptions.Namespace opts)
           (Info.Name (infos ! k)) = Inl e"
  shows "list_rows opts infos t = Failed e"
proof -
  have split: "infos = take k infos @ infos ! k # drop (Suc k) infos"
    using assms(2) by (rule id_take_nth_drop)
  have "\<forall>j<length (take k infos). \<exists>obj.
           c (Resource (ResourceMapping (take k infos ! j))) (ListOptions.Namespace opts)
             (Info.Name (take k infos ! j)) = Inr obj \<and>
           buildBackupJobInfo obj
             (BackupJobInfo0\<lparr>BackupJobInfo.Namespace := Info.Namespace (take k infos ! j),
                              BackupJobInfo.Name := Info.Name (take k infos ! j)\<rparr>) \<noteq> None"
    using assms(2,3) by simp
  from list_rows_prefix [OF assms(1) this, of t] obtain t' where
    p: "list_rows opts (take k infos) t = Listed t'" ..
  have "list_rows opts (take k infos @ infos ! k # drop (Suc k) infos) t = Failed e"
    using p assms(1,4) by (simp add: list_rows_append)
  then show ?thesis
    using split by simp
qed

lemma list_rows_projection_panics:
  assumes "client opts = Some c"
    and "k < length infos"
    and "\<forall>j<k. \<exists>obj.
           c (Resource (ResourceMapping (infos ! j))) (ListOptions.Namespace opts)
             (Info.Name (infos ! j)) = Inr obj \<and>
           buildBackupJobInfo obj
             (BackupJobInfo0\<lparr>BackupJobInfo.Namespace := Info.Namespace (infos ! j),
                              BackupJobInfo.Name := Info.Name (infos ! j)\<rparr>) \<noteq> None"
    and "c (Resource (ResourceMapping (infos ! k))) (ListOptions.Namespace opts)
           (Info.Name (infos ! k)) = Inr obj"
    and "buildBackupJobInfo obj
             (BackupJobInfo0\<lparr>BackupJobInfo.Namespace := Info.Namespace (infos ! k),
                              BackupJobInfo.Name := Info.Name (infos ! k)\<rparr>) = None"
  shows "list_rows opts infos t = Crashed"
proof -
  have split: "infos = take k infos @ infos ! k # drop (Suc k) infos"
    using assms(2) by (rule id_take_nth_drop)
  have "\<forall>j<length (take k infos). \<exists>obj.
           c (Resource (ResourceMapping (take k infos ! j))) (ListOptions.Namespace opts)
             (Info.Name (take k infos ! j)) = Inr obj \<and>
           buildBackupJobInfo obj
             (BackupJobInfo0\<lparr>BackupJobInfo.Namespace := Info.Namespace (take k infos ! j),
                              BackupJobInfo.Name := Info.Name (take k infos ! j)\<rparr>) \<noteq> None"
    using assms(2,3) by simp
  from list_rows_prefix [OF assms(1) this, of t] obtain t' where
    p: "list_rows opts (take k infos) t = Listed t'" ..
  have "list_rows opts (take k infos @ infos ! k # drop (Suc k) infos) t = Crashed"
    using p assms(1,4,5) by (simp add: list_rows_append)
  then show ?thesis
    using split by simp
qed

text \<open>
  The cells of the row of a projected object: the namespace and the name come from the
  record that was passed when the object has no status, and from the object otherwise.
\<close>

lemma buildBackupJobInfo_row_no_status:
  assumes "index (Object obj) ''status'' = INil"
    and "buildBackupJobInfo obj
           (BackupJobInfo0\<lparr>BackupJobInfo.Namespace := ns, BackupJobInfo.Name := n\<rparr>) = Some b"
  shows "[BackupJobInfo.Namespace b, BackupJobInfo.Name b, Phase b, CompletionTime b,
          StartTime b] = [ns, n, [], [], []]"
  using assms by (auto simp: buildBackupJobInfo_def fold_Labels BackupJobInfo0_def)

lemma buildBackupJobInfo_row_status:
  assumes "index (Object obj) ''status'' = IMap status"
    and "buildBackupJobInfo obj
           (BackupJobInfo0\<lparr>BackupJobInfo.Namespace := ns, BackupJobInfo.Name := n\<rparr>) = Some b"
  shows "[BackupJobInfo.Namespace b, BackupJobInfo.Name b, Phase b, CompletionTime b,
          StartTime b] =
         [GetNamespace obj, GetName obj,
          (case index status ''phase'' of IString s \<Rightarrow> s | _ \<Rightarrow> []),
          (case index status ''completionTimestamp'' of IString s \<Rightarrow> s | _ \<Rightarrow> []),
          (case index status ''startTimestamp'' of IString s \<Rightarrow> s | _ \<Rightarrow> [])]"
  using assms
  by (auto simp: buildBackupJobInfo_def fold_Labels BackupJobInfo0_def assert_map_def
      assert_string_def Let_def split: if_splits bind_splits iface.splits)

text \<open>What \<open>Run\<close> does after the query, when the query succeeded and when it failed.\<close>

lemma Run_query_succeeded:
  assumes "ListOptions.NewBuilder opts = Some newBuilder"
    and "Err (newBuilder (Run_query opts)) = None"
    and "Infos (newBuilder (Run_query opts)) = (infos, None)"
  shows "Run EncodeTable opts =
     (case list_rows opts infos
             (AddRow [] [''NAMESPACE'', ''NAME'', ''PHASE'', ''COMPLETION_TIME'',
                ''CREATE_TIME'']) of
        Crashed \<Rightarrow> (IOStreams opts, Panicked)
      | Failed e \<Rightarrow> (IOStreams opts, Returned (Some e))
      | Listed t \<Rightarrow>
          ((IOStreams opts)
             \<lparr>Out := Out (IOStreams opts) @ EncodeTable t,
              ErrOut := ErrOut (IOStreams opts)
                 @ (if infos = []
                    then (if AllNamespaces opts then ''No resources found'' @ [CHR 0x0A]
                          else ''No resources found in '' @ ListOptions.Namespace opts
                               @ '' namespace.'' @ [CHR 0x0A])
                    else [])\<rparr>,
           Returned None))"
  using assms
  by (cases "list_rows opts infos
                      (AddRow []
                        [''NAMESPACE'', ''NAME'', ''PHASE'', ''COMPLETION_TIME'',
                         ''CREATE_TIME''])")
    (simp_all add: Run_def Run_loop_nil_err NewAggregate_def)

lemma Run_query_failed:
  assumes "ListOptions.NewBuilder opts = Some newBuilder"
    and "Err (newBuilder (Run_query opts)) \<noteq> None \<or> snd (Infos (newBuilder (Run_query opts))) \<noteq> None"
  shows "Run EncodeTable opts =
     (IOStreams opts,
      Returned (if Err (newBuilder (Run_query opts)) \<noteq> None
                then Err (newBuilder (Run_query opts))
                else snd (Infos (newBuilder (Run_query opts)))))"
  using assms by (auto simp: Run_def Let_def split: prod.splits)

lemma list_rows_client_cong:
  assumes "\<forall>info \<in> set infos.
      c (Resource (ResourceMapping info)) (ListOptions.Namespace opts) (Info.Name info) =
      c' (Resource (ResourceMapping info)) (ListOptions.Namespace opts) (Info.Name info)"
  shows "list_rows (opts\<lparr>client := Some c\<rparr>) infos t =
     list_rows (opts\<lparr>client := Some c'\<rparr>) infos t"
  using assms by (induction infos arbitrary: t) (simp_all split: sum.splits option.splits)

text \<open>The examples, evaluated.\<close>

lemma completed_options_simps:
  "ListOptions.NewBuilder (completed_options infos c alln) = Some (builder_listing infos)"
  "client (completed_options infos c alln) = Some c"
  "ListOptions.Namespace (completed_options infos c alln) = ''default''"
  "AllNamespaces (completed_options infos c alln) = alln"
  "IOStreams (completed_options infos c alln) = \<lparr>In = [], Out = [], ErrOut = []\<rparr>"
  by (simp_all add: completed_options_def NewListCmd_def)

lemma builder_listing_simps:
  "Err (builder_listing infos q) = None"
  "Infos (builder_listing infos q) = (infos, None)"
  by (simp_all add: builder_listing_def)

lemma listed_simps:
  "Info.Name (listed ns name) = name"
  "Info.Namespace (listed ns name) = ns"
  "Resource (ResourceMapping (listed ns name)) = backupjobs"
  by (simp_all add: listed_def ResourceMapping_def)

lemma project_bj5:
  "buildBackupJobInfo bj5_completed
     (BackupJobInfo0\<lparr>BackupJobInfo.Namespace := ns, BackupJobInfo.Name := ''bj5''\<rparr>) =
   Some \<lparr>BackupJobInfo.Namespace = ''default'', Name = ''bj5'', Phase = ''Completed'',
          CompletionTime = ''2022-09-01T10:00:00Z'', StartTime = ''2022-09-01T09:00:00Z'',
          Labels = []\<rparr>"
  by (simp add: bj5_completed_def buildBackupJobInfo_def GetLabels_def NestedStringMap_def
      index_def assert_map_def assert_string_def GetName_def GetNamespace_def
      getNestedString_def NestedString_def BackupJobInfo0_def)

lemma project_bj1:
  "buildBackupJobInfo bj1_no_status
     (BackupJobInfo0\<lparr>BackupJobInfo.Namespace := ns, BackupJobInfo.Name := ''bj1''\<rparr>) =
   Some \<lparr>BackupJobInfo.Namespace = ns, Name = ''bj1'', Phase = [],
          CompletionTime = [], StartTime = [], Labels = ''app:db tier:x ''\<rparr>"
  by (simp add: bj1_no_status_def buildBackupJobInfo_def GetLabels_def NestedStringMap_def
      index_def BackupJobInfo0_def Sprintf_label_def)

lemma project_bj2:
  "buildBackupJobInfo bj_status_string info = None"
  by (simp add: bj_status_string_def buildBackupJobInfo_def index_def assert_map_def)

text \<open>
  C3. The branch after \<^verbatim>\<open>info.ResourceMapping()\<close> tests the \<open>err\<close> that
  \<^verbatim>\<open>r.Infos()\<close> assigned, and \<open>Run\<close> has returned already when that is not nil.
  So the branch is never taken, \<open>allErrs\<close> and \<open>errs\<close> stay empty, and the aggregate
  returned after the loop is nil: on every input \<open>Run\<close> does what
  \<open>Run_without_aggregation\<close> does, which has neither the branch nor the two variables
  and returns nil after the loop.
\<close>

theorem Run_aggregation_unreachable:
  "Run EncodeTable opts = Run_without_aggregation EncodeTable opts"
proof (cases "ListOptions.NewBuilder opts")
  case None
  then show ?thesis by (simp add: Run_def Run_without_aggregation_def)
next
  case (Some b)
  obtain infos err where i: "Infos (b (Run_query opts)) = (infos, err)"
    by (cases "Infos (b (Run_query opts))")
  show ?thesis
  proof (cases "Err (b (Run_query opts)) = None \<and> err = None")
    case False
    then show ?thesis
      using Some i by (auto simp: Run_def Run_without_aggregation_def Let_def)
  next
    case True
    then show ?thesis
      using Some i
      by (cases "list_rows opts infos
                      (AddRow []
                        [''NAMESPACE'', ''NAME'', ''PHASE'', ''COMPLETION_TIME'',
                         ''CREATE_TIME''])")
        (simp_all add: Run_def Run_without_aggregation_def Let_def Run_loop_nil_err
          NewAggregate_def)
  qed
qed

theorem Run_aggregation_unreachable_witness:
  "Run plain_table
     (completed_options [listed ''default'' ''bj5'', listed ''default'' ''gone''] cluster False) =
   Run_without_aggregation plain_table
     (completed_options [listed ''default'' ''bj5'', listed ''default'' ''gone''] cluster False)"
  by (rule Run_aggregation_unreachable)

text \<open>
  C4. Let the query succeed with the listing \<open>infos\<close>, and let the loop reach its
  \<open>k\<close>-th entry (every entry before it was fetched and projected) and \<^verbatim>\<open>Get\<close> fail
  there with \<open>e\<close>. Then \<open>Run\<close> returns \<open>e\<close> and leaves both streams as they were:
  the table is not rendered, neither the header nor the rows of the entries before \<open>k\<close>
  are written.
\<close>

theorem Run_Get_failure:
  assumes "ListOptions.NewBuilder opts = Some newBuilder"
    and "Err (newBuilder (Run_query opts)) = None"
    and "Infos (newBuilder (Run_query opts)) = (infos, None)"
    and "client opts = Some c"
    and "k < length infos"
    and "\<forall>j<k. \<exists>obj.
           c (Resource (ResourceMapping (infos ! j))) (ListOptions.Namespace opts)
             (Info.Name (infos ! j)) = Inr obj \<and>
           buildBackupJobInfo obj
             (BackupJobInfo0\<lparr>BackupJobInfo.Namespace := Info.Namespace (infos ! j),
                              BackupJobInfo.Name := Info.Name (infos ! j)\<rparr>) \<noteq> None"
    and "c (Resource (ResourceMapping (infos ! k))) (ListOptions.Namespace opts)
           (Info.Name (infos ! k)) = Inl e"
  shows "Run EncodeTable opts = (IOStreams opts, Returned (Some e))"
proof -
  have "list_rows opts infos
          (AddRow [] [''NAMESPACE'', ''NAME'', ''PHASE'', ''COMPLETION_TIME'', ''CREATE_TIME'']) =
        Failed e"
    using assms(4-7) by (rule list_rows_Get_fails)
  then show ?thesis
    by (simp add: Run_query_succeeded [OF assms(1-3)])
qed

theorem Run_Get_failure_witness:
  "Run plain_table
     (completed_options
        [listed ''default'' ''bj5'', listed ''default'' ''gone'', listed ''default'' ''bj1'']
        cluster False) =
     (\<lparr>In = [], Out = [], ErrOut = []\<rparr>, Returned (Some not_found))"
proof -
  let ?infos = "[listed ''default'' ''bj5'', listed ''default'' ''gone'', listed ''default'' ''bj1'']"
  let ?opts = "completed_options ?infos cluster False"
  have pre: "\<forall>j<1. \<exists>obj.
           cluster (Resource (ResourceMapping (?infos ! j))) (ListOptions.Namespace ?opts)
             (Info.Name (?infos ! j)) = Inr obj \<and>
           buildBackupJobInfo obj
             (BackupJobInfo0\<lparr>BackupJobInfo.Namespace := Info.Namespace (?infos ! j),
                              BackupJobInfo.Name := Info.Name (?infos ! j)\<rparr>) \<noteq> None"
    by (simp add: completed_options_simps listed_simps cluster_def cluster_default_def project_bj5)
  have fail: "cluster (Resource (ResourceMapping (?infos ! 1))) (ListOptions.Namespace ?opts)
           (Info.Name (?infos ! 1)) = Inl not_found"
    by (simp add: completed_options_simps listed_simps cluster_def cluster_default_def)
  have "Run plain_table ?opts = (IOStreams ?opts, Returned (Some not_found))"
    by (rule Run_Get_failure [where k = 1 and c = cluster and infos = ?infos
          and newBuilder = "builder_listing ?infos", OF _ _ _ _ _ pre fail])
       (simp_all add: completed_options_simps builder_listing_simps)
  then show ?thesis
    by (simp add: completed_options_simps)
qed

text \<open>
  C5, as the code has it. Let the query succeed with the listing \<open>infos\<close>, let the
  \<^verbatim>\<open>Get\<close> of every entry (made with the entry's name in the namespace \<open>Namespace\<close>
  of the options) succeed with the objects \<open>objs\<close>, and let the projection of every
  object return, with the records \<open>bjis\<close> (its status is absent or has the shape of
  \<open>buildBackupJobInfo_returns_iff\<close>). Then \<open>Run\<close> hands to
  \<^verbatim>\<open>output.EncodeTable\<close> the table of the header row followed by one row for every
  entry, in the order of the listing, writes what that renders to the output stream and
  returns nil. The row of an entry is projected from the object that its \<^verbatim>\<open>Get\<close>
  returned: when that object has no status, the cells are the namespace and the name of
  the listing entry and three empty strings; otherwise they are the namespace and the
  name of the fetched object and the phase, completion time and start time of its status,
  each empty when absent.
\<close>

theorem Run_lists_every_object:
  assumes "ListOptions.NewBuilder opts = Some newBuilder"
    and "Err (newBuilder (Run_query opts)) = None"
    and "Infos (newBuilder (Run_query opts)) = (infos, None)"
    and "client opts = Some c"
    and "map (\<lambda>info. c (Resource (ResourceMapping info)) (ListOptions.Namespace opts)
                (Info.Name info)) infos = map Inr objs"
    and "map (\<lambda>(info, obj). buildBackupJobInfo obj
                (BackupJobInfo0\<lparr>BackupJobInfo.Namespace := Info.Namespace info,
                                 BackupJobInfo.Name := Info.Name info\<rparr>)) (zip infos objs) =
         map Some bjis"
  shows "Out (fst (Run EncodeTable opts)) =
           Out (IOStreams opts)
           @ EncodeTable
               ([[''NAMESPACE'', ''NAME'', ''PHASE'', ''COMPLETION_TIME'', ''CREATE_TIME'']]
                @ map (\<lambda>b. [BackupJobInfo.Namespace b, BackupJobInfo.Name b, Phase b,
                             CompletionTime b, StartTime b]) bjis)
         \<and> length bjis = length infos
         \<and> snd (Run EncodeTable opts) = Returned None
         \<and> (\<forall>i<length infos.
               (index (Object (objs ! i)) ''status'' = INil \<longrightarrow>
                  [BackupJobInfo.Namespace (bjis ! i), BackupJobInfo.Name (bjis ! i),
                   Phase (bjis ! i), CompletionTime (bjis ! i), StartTime (bjis ! i)] =
                  [Info.Namespace (infos ! i), Info.Name (infos ! i), [], [], []]) \<and>
               (\<forall>status. index (Object (objs ! i)) ''status'' = IMap status \<longrightarrow>
                  [BackupJobInfo.Namespace (bjis ! i), BackupJobInfo.Name (bjis ! i),
                   Phase (bjis ! i), CompletionTime (bjis ! i), StartTime (bjis ! i)] =
                  [GetNamespace (objs ! i), GetName (objs ! i),
                   (case index status ''phase'' of IString s \<Rightarrow> s | _ \<Rightarrow> []),
                   (case index status ''completionTimestamp'' of IString s \<Rightarrow> s | _ \<Rightarrow> []),
                   (case index status ''startTimestamp'' of IString s \<Rightarrow> s | _ \<Rightarrow> [])]))"
proof -
  let ?t = "AddRow [] [''NAMESPACE'', ''NAME'', ''PHASE'', ''COMPLETION_TIME'', ''CREATE_TIME'']"
  have lo: "length objs = length infos"
    using arg_cong [OF assms(5), of length] by simp
  have len: "length bjis = length infos"
    using arg_cong [OF assms(6), of length] lo by simp
  have "list_rows opts infos ?t =
     Listed (?t @ map (\<lambda>b. [BackupJobInfo.Namespace b, BackupJobInfo.Name b, Phase b,
                            CompletionTime b, StartTime b]) bjis)"
    using assms(4-6) by (rule list_rows_all_projected)
  then have run: "Out (fst (Run EncodeTable opts)) =
           Out (IOStreams opts)
           @ EncodeTable
               ([[''NAMESPACE'', ''NAME'', ''PHASE'', ''COMPLETION_TIME'', ''CREATE_TIME'']]
                @ map (\<lambda>b. [BackupJobInfo.Namespace b, BackupJobInfo.Name b, Phase b,
                             CompletionTime b, StartTime b]) bjis)
         \<and> snd (Run EncodeTable opts) = Returned None"
    by (simp add: Run_query_succeeded [OF assms(1-3)] AddRow_def)
  have nth: "buildBackupJobInfo (objs ! i)
                (BackupJobInfo0\<lparr>BackupJobInfo.Namespace := Info.Namespace (infos ! i),
                                 BackupJobInfo.Name := Info.Name (infos ! i)\<rparr>) =
             Some (bjis ! i)" if "i < length infos" for i
    using arg_cong [OF assms(6), of "\<lambda>xs. xs ! i"] that lo len by simp
  have rows: "(index (Object (objs ! i)) ''status'' = INil \<longrightarrow>
                  [BackupJobInfo.Namespace (bjis ! i), BackupJobInfo.Name (bjis ! i),
                   Phase (bjis ! i), CompletionTime (bjis ! i), StartTime (bjis ! i)] =
                  [Info.Namespace (infos ! i), Info.Name (infos ! i), [], [], []]) \<and>
               (\<forall>status. index (Object (objs ! i)) ''status'' = IMap status \<longrightarrow>
                  [BackupJobInfo.Namespace (bjis ! i), BackupJobInfo.Name (bjis ! i),
                   Phase (bjis ! i), CompletionTime (bjis ! i), StartTime (bjis ! i)] =
                  [GetNamespace (objs ! i), GetName (objs ! i),
                   (case index status ''phase'' of IString s \<Rightarrow> s | _ \<Rightarrow> []),
                   (case index status ''completionTimestamp'' of IString s \<Rightarrow> s | _ \<Rightarrow> []),
                   (case index status ''startTimestamp'' of IString s \<Rightarrow> s | _ \<Rightarrow> [])])"
    if "i < length infos" for i
    using buildBackupJobInfo_row_no_status [OF _ nth [OF that]]
      buildBackupJobInfo_row_status [OF _ nth [OF that]]
    by blast
  show ?thesis
    using run len rows by blast
qed

theorem Run_lists_every_object_witness:
  "Out (fst (Run plain_table
               (completed_options [listed ''default'' ''bj5'', listed ''default'' ''bj1'']
                  cluster False))) =
     plain_table
       [[''NAMESPACE'', ''NAME'', ''PHASE'', ''COMPLETION_TIME'', ''CREATE_TIME''],
        [''default'', ''bj5'', ''Completed'', ''2022-09-01T10:00:00Z'', ''2022-09-01T09:00:00Z''],
        [''default'', ''bj1'', [], [], []]] \<and>
   snd (Run plain_table
          (completed_options [listed ''default'' ''bj5'', listed ''default'' ''bj1'']
             cluster False)) = Returned None \<and>
   Out (fst (Run plain_table
               (completed_options [listed ''prod'' ''bj5'', listed ''prod'' ''bj1'']
                  cluster True))) =
     plain_table
       [[''NAMESPACE'', ''NAME'', ''PHASE'', ''COMPLETION_TIME'', ''CREATE_TIME''],
        [''default'', ''bj5'', ''Completed'', ''2022-09-01T10:00:00Z'', ''2022-09-01T09:00:00Z''],
        [''prod'', ''bj1'', [], [], []]]"
proof -
  have main:
    "Out (fst (Run plain_table
                 (completed_options [listed ns ''bj5'', listed ns ''bj1''] cluster alln))) =
       plain_table
         [[''NAMESPACE'', ''NAME'', ''PHASE'', ''COMPLETION_TIME'', ''CREATE_TIME''],
          [''default'', ''bj5'', ''Completed'', ''2022-09-01T10:00:00Z'',
           ''2022-09-01T09:00:00Z''],
          [ns, ''bj1'', [], [], []]] \<and>
     snd (Run plain_table
            (completed_options [listed ns ''bj5'', listed ns ''bj1''] cluster alln)) =
       Returned None" for ns alln
  proof -
    let ?infos = "[listed ns ''bj5'', listed ns ''bj1'']"
    let ?opts = "completed_options ?infos cluster alln"
    let ?bjis = "[\<lparr>BackupJobInfo.Namespace = ''default'', Name = ''bj5'', Phase = ''Completed'',
            CompletionTime = ''2022-09-01T10:00:00Z'', StartTime = ''2022-09-01T09:00:00Z'',
            Labels = []\<rparr>,
          \<lparr>BackupJobInfo.Namespace = ns, Name = ''bj1'', Phase = [],
            CompletionTime = [], StartTime = [], Labels = ''app:db tier:x ''\<rparr>]"
    have gets: "map (\<lambda>info. cluster (Resource (ResourceMapping info))
                  (ListOptions.Namespace ?opts) (Info.Name info)) ?infos =
                map Inr [bj5_completed, bj1_no_status]"
      by (simp add: completed_options_simps listed_simps cluster_def cluster_default_def)
    have projs: "map (\<lambda>(info, obj). buildBackupJobInfo obj
                  (BackupJobInfo0\<lparr>BackupJobInfo.Namespace := Info.Namespace info,
                                   BackupJobInfo.Name := Info.Name info\<rparr>))
                (zip ?infos [bj5_completed, bj1_no_status]) = map Some ?bjis"
      by (simp add: listed_simps project_bj5 project_bj1)
    have "ListOptions.NewBuilder ?opts = Some (builder_listing ?infos)"
      and "Err (builder_listing ?infos (Run_query ?opts)) = None"
      and "Infos (builder_listing ?infos (Run_query ?opts)) = (?infos, None)"
      and "client ?opts = Some cluster"
      by (simp_all add: completed_options_simps builder_listing_simps)
    from Run_lists_every_object [OF this gets projs, of plain_table] show ?thesis
      by (simp add: completed_options_simps)
  qed
  show ?thesis
    using main [of "''default''" False] main [of "''prod''" True] by simp
qed

text \<open>
  \<^verbatim>\<open>Get\<close> succeeds for the one entry of the listing, but the status of the object is
  a string: \<open>Run\<close> panics in the projection, and writes nothing.
\<close>

theorem Run_lists_every_object_counterexample:
  "cluster (Resource (ResourceMapping (listed ''default'' ''bj2''))) ''default'' ''bj2'' =
     Inr bj_status_string \<and>
   Run plain_table (completed_options [listed ''default'' ''bj2''] cluster False) =
     (\<lparr>In = [], Out = [], ErrOut = []\<rparr>, Panicked)"
  by (simp add: Run_def completed_options_simps builder_listing_simps Run_iteration_def
      listed_simps cluster_def cluster_default_def project_bj2)

text \<open>
  C6. Let the query succeed with the listing \<open>infos\<close>. When \<open>infos\<close> is empty,
  \<open>Run\<close> renders the table of the header row alone, writes to the error stream the
  one line \<open>No resources found\<close> when all namespaces were asked for and
  \<open>No resources found in <namespace> namespace.\<close> otherwise, and returns nil. When
  \<open>infos\<close> is not empty, \<open>Run\<close> writes nothing to the error stream, however it ends.
\<close>

theorem Run_no_resources_found:
  assumes "ListOptions.NewBuilder opts = Some newBuilder"
    and "Err (newBuilder (Run_query opts)) = None"
    and "Infos (newBuilder (Run_query opts)) = (infos, None)"
  shows "(infos = [] \<longrightarrow>
            Run EncodeTable opts =
              ((IOStreams opts)
                 \<lparr>Out := Out (IOStreams opts)
                     @ EncodeTable
                         [[''NAMESPACE'', ''NAME'', ''PHASE'', ''COMPLETION_TIME'',
                           ''CREATE_TIME'']],
                  ErrOut := ErrOut (IOStreams opts)
                     @ (if AllNamespaces opts then ''No resources found'' @ [CHR 0x0A]
                        else ''No resources found in '' @ ListOptions.Namespace opts
                             @ '' namespace.'' @ [CHR 0x0A])\<rparr>,
               Returned None))
       \<and> (infos \<noteq> [] \<longrightarrow>
            ErrOut (fst (Run EncodeTable opts)) = ErrOut (IOStreams opts))"
  by (cases "list_rows opts infos
                 (AddRow [] [''NAMESPACE'', ''NAME'', ''PHASE'', ''COMPLETION_TIME'',
                    ''CREATE_TIME''])")
     (simp_all add: Run_query_succeeded [OF assms] AddRow_def)

theorem Run_no_resources_found_witness:
  "Run plain_table (completed_options [] cluster True) =
     (\<lparr>In = [],
       Out = plain_table
               [[''NAMESPACE'', ''NAME'', ''PHASE'', ''COMPLETION_TIME'', ''CREATE_TIME'']],
       ErrOut = ''No resources found'' @ [CHR 0x0A]\<rparr>, Returned None) \<and>
   Run plain_table (completed_options [] cluster False) =
     (\<lparr>In = [],
       Out = plain_table
               [[''NAMESPACE'', ''NAME'', ''PHASE'', ''COMPLETION_TIME'', ''CREATE_TIME'']],
       ErrOut = ''No resources found in default namespace.'' @ [CHR 0x0A]\<rparr>, Returned None) \<and>
   ErrOut (fst (Run plain_table
                  (completed_options [listed ''default'' ''bj5''] cluster False))) = []"
proof -
  have a: "ListOptions.NewBuilder (completed_options infos cluster alln) =
        Some (builder_listing infos)"
    and b: "Err (builder_listing infos (Run_query (completed_options infos cluster alln))) = None"
    and c: "Infos (builder_listing infos (Run_query (completed_options infos cluster alln))) =
        (infos, None)" for infos alln
    by (simp_all add: completed_options_simps builder_listing_simps)
  show ?thesis
    using Run_no_resources_found [OF a b c, of "[]" plain_table True]
      Run_no_resources_found [OF a b c, of "[]" plain_table False]
      Run_no_resources_found [OF a b c, of "[listed ''default'' ''bj5'']" plain_table False]
    by (simp add: completed_options_simps)
qed

text \<open>
  C10. The \<^verbatim>\<open>Get\<close> of every entry of the listing is made with the resource of the
  entry, the namespace \<open>Namespace\<close> of the options and the name of the entry, and the
  entry's own namespace is not used for it. The run is what the answers of the client to
  these calls make it:
  \<^item> two clients that answer these calls alike give the same run, whatever they hold
    elsewhere;
  \<^item> when the query succeeded and the first answer that is not an object that projects
    is the error \<open>e\<close>, the run returns \<open>e\<close>;
  \<^item> when it is an object whose projection panics, the run panics;
  \<^item> when all the answers are objects that project, the table rendered holds the rows
    projected from just these objects.
  In the example all namespaces are listed, the entry lives in \<open>prod\<close> and the options
  resolve to \<open>default\<close>: the object that the cluster holds in \<open>prod\<close> is not found.
\<close>

theorem Run_Get_in_resolved_namespace:
  assumes "ListOptions.NewBuilder opts = Some newBuilder"
    and "Infos (newBuilder (Run_query opts)) = (infos, err)"
  shows "((\<forall>info \<in> set infos.
            c (Resource (ResourceMapping info)) (ListOptions.Namespace opts) (Info.Name info) =
            c' (Resource (ResourceMapping info)) (ListOptions.Namespace opts) (Info.Name info))
          \<longrightarrow> Run EncodeTable (opts\<lparr>client := Some c\<rparr>) =
               Run EncodeTable (opts\<lparr>client := Some c'\<rparr>))
     \<and> (Err (newBuilder (Run_query opts)) = None \<and> err = None \<and> k < length infos \<and>
          (\<forall>j<k. \<exists>obj.
             c (Resource (ResourceMapping (infos ! j))) (ListOptions.Namespace opts)
               (Info.Name (infos ! j)) = Inr obj \<and>
             buildBackupJobInfo obj
               (BackupJobInfo0\<lparr>BackupJobInfo.Namespace := Info.Namespace (infos ! j),
                                BackupJobInfo.Name := Info.Name (infos ! j)\<rparr>) \<noteq> None) \<and>
          c (Resource (ResourceMapping (infos ! k))) (ListOptions.Namespace opts)
            (Info.Name (infos ! k)) = Inl e
          \<longrightarrow> Run EncodeTable (opts\<lparr>client := Some c\<rparr>) =
               (IOStreams opts, Returned (Some e)))
     \<and> (Err (newBuilder (Run_query opts)) = None \<and> err = None \<and> k < length infos \<and>
          (\<forall>j<k. \<exists>obj.
             c (Resource (ResourceMapping (infos ! j))) (ListOptions.Namespace opts)
               (Info.Name (infos ! j)) = Inr obj \<and>
             buildBackupJobInfo obj
               (BackupJobInfo0\<lparr>BackupJobInfo.Namespace := Info.Namespace (infos ! j),
                                BackupJobInfo.Name := Info.Name (infos ! j)\<rparr>) \<noteq> None) \<and>
          c (Resource (ResourceMapping (infos ! k))) (ListOptions.Namespace opts)
            (Info.Name (infos ! k)) = Inr obj \<and>
          buildBackupJobInfo obj
            (BackupJobInfo0\<lparr>BackupJobInfo.Namespace := Info.Namespace (infos ! k),
                             BackupJobInfo.Name := Info.Name (infos ! k)\<rparr>) = None
          \<longrightarrow> Run EncodeTable (opts\<lparr>client := Some c\<rparr>) = (IOStreams opts, Panicked))
     \<and> (Err (newBuilder (Run_query opts)) = None \<and> err = None \<and>
          map (\<lambda>info. c (Resource (ResourceMapping info)) (ListOptions.Namespace opts)
                 (Info.Name info)) infos = map Inr objs \<and>
          map (\<lambda>(info, obj). buildBackupJobInfo obj
                 (BackupJobInfo0\<lparr>BackupJobInfo.Namespace := Info.Namespace info,
                                  BackupJobInfo.Name := Info.Name info\<rparr>)) (zip infos objs) =
            map Some bjis
          \<longrightarrow> Run EncodeTable (opts\<lparr>client := Some c\<rparr>) =
               ((IOStreams opts)
                  \<lparr>Out := Out (IOStreams opts)
                      @ EncodeTable
                          ([[''NAMESPACE'', ''NAME'', ''PHASE'', ''COMPLETION_TIME'',
                             ''CREATE_TIME'']]
                           @ map (\<lambda>b. [BackupJobInfo.Namespace b, BackupJobInfo.Name b,
                                        Phase b, CompletionTime b, StartTime b]) bjis),
                   ErrOut := ErrOut (IOStreams opts)
                      @ (if infos = []
                         then (if AllNamespaces opts then ''No resources found'' @ [CHR 0x0A]
                               else ''No resources found in '' @ ListOptions.Namespace opts
                                    @ '' namespace.'' @ [CHR 0x0A])
                         else [])\<rparr>,
                Returned None))"
proof -
  let ?t = "AddRow [] [''NAMESPACE'', ''NAME'', ''PHASE'', ''COMPLETION_TIME'', ''CREATE_TIME'']"
  let ?o = "opts\<lparr>client := Some c\<rparr>"
  have q: "Run_query (opts\<lparr>client := Some c\<rparr>) = Run_query opts"
    "Run_query (opts\<lparr>client := Some c'\<rparr>) = Run_query opts"
    by (simp_all add: Run_query_def)
  have p1: "ListOptions.NewBuilder (opts\<lparr>client := Some c\<rparr>) = Some newBuilder"
    and p1': "ListOptions.NewBuilder (opts\<lparr>client := Some c'\<rparr>) = Some newBuilder"
    using assms(1) by simp_all
  have cl: "client ?o = Some c"
    by simp
  have ns: "ListOptions.Namespace ?o = ListOptions.Namespace opts"
    by simp
  have ok: "Run EncodeTable ?o =
     (case list_rows ?o infos ?t of
        Crashed \<Rightarrow> (IOStreams ?o, Panicked)
      | Failed e \<Rightarrow> (IOStreams ?o, Returned (Some e))
      | Listed t \<Rightarrow>
          ((IOStreams ?o)
             \<lparr>Out := Out (IOStreams ?o) @ EncodeTable t,
              ErrOut := ErrOut (IOStreams ?o)
                 @ (if infos = []
                    then (if AllNamespaces ?o then ''No resources found'' @ [CHR 0x0A]
                          else ''No resources found in '' @ ListOptions.Namespace ?o
                               @ '' namespace.'' @ [CHR 0x0A])
                    else [])\<rparr>,
           Returned None))"
    if "Err (newBuilder (Run_query opts)) = None" and "err = None"
    by (rule Run_query_succeeded [OF p1]) (use that assms(2) in \<open>simp_all add: q\<close>)
  have 1: "Run EncodeTable (opts\<lparr>client := Some c\<rparr>) = Run EncodeTable (opts\<lparr>client := Some c'\<rparr>)"
    if agree: "\<forall>info \<in> set infos.
            c (Resource (ResourceMapping info)) (ListOptions.Namespace opts) (Info.Name info) =
            c' (Resource (ResourceMapping info)) (ListOptions.Namespace opts) (Info.Name info)"
  proof (cases "Err (newBuilder (Run_query opts)) = None \<and> err = None")
    case True
    have p2: "Err (newBuilder (Run_query (opts\<lparr>client := Some c\<rparr>))) = None"
      and p2': "Err (newBuilder (Run_query (opts\<lparr>client := Some c'\<rparr>))) = None"
      using True by (simp_all add: q)
    have p3: "Infos (newBuilder (Run_query (opts\<lparr>client := Some c\<rparr>))) = (infos, None)"
      and p3': "Infos (newBuilder (Run_query (opts\<lparr>client := Some c'\<rparr>))) = (infos, None)"
      using True assms(2) by (simp_all add: q)
    show ?thesis
      by (simp add: Run_query_succeeded [OF p1 p2 p3] Run_query_succeeded [OF p1' p2' p3']
          list_rows_client_cong [of infos c opts c', OF agree] split: listing.splits)
  next
    case False
    then have f: "Err (newBuilder (Run_query opts)) \<noteq> None \<or>
        snd (Infos (newBuilder (Run_query opts))) \<noteq> None"
      using assms(2) by auto
    show ?thesis
      using Run_query_failed [of "opts\<lparr>client := Some c\<rparr>" newBuilder EncodeTable]
        Run_query_failed [of "opts\<lparr>client := Some c'\<rparr>" newBuilder EncodeTable] assms(1) f
      by (simp add: q)
  qed
  have 2: "Run EncodeTable ?o = (IOStreams opts, Returned (Some e))"
    if "Err (newBuilder (Run_query opts)) = None" and "err = None" and "k < length infos"
      and "\<forall>j<k. \<exists>obj.
             c (Resource (ResourceMapping (infos ! j))) (ListOptions.Namespace opts)
               (Info.Name (infos ! j)) = Inr obj \<and>
             buildBackupJobInfo obj
               (BackupJobInfo0\<lparr>BackupJobInfo.Namespace := Info.Namespace (infos ! j),
                                BackupJobInfo.Name := Info.Name (infos ! j)\<rparr>) \<noteq> None"
      and "c (Resource (ResourceMapping (infos ! k))) (ListOptions.Namespace opts)
            (Info.Name (infos ! k)) = Inl e"
  proof -
    have "list_rows ?o infos ?t = Failed e"
      by (rule list_rows_Get_fails [OF cl that(3)]) (use that(4,5) in \<open>simp_all only: ns\<close>)
    then show ?thesis
      by (simp add: ok [OF that(1,2)])
  qed
  have 3: "Run EncodeTable ?o = (IOStreams opts, Panicked)"
    if "Err (newBuilder (Run_query opts)) = None" and "err = None" and "k < length infos"
      and "\<forall>j<k. \<exists>obj.
             c (Resource (ResourceMapping (infos ! j))) (ListOptions.Namespace opts)
               (Info.Name (infos ! j)) = Inr obj \<and>
             buildBackupJobInfo obj
               (BackupJobInfo0\<lparr>BackupJobInfo.Namespace := Info.Namespace (infos ! j),
                                BackupJobInfo.Name := Info.Name (infos ! j)\<rparr>) \<noteq> None"
      and "c (Resource (ResourceMapping (infos ! k))) (ListOptions.Namespace opts)
            (Info.Name (infos ! k)) = Inr obj"
      and "buildBackupJobInfo obj
            (BackupJobInfo0\<lparr>BackupJobInfo.Namespace := Info.Namespace (infos ! k),
                             BackupJobInfo.Name := Info.Name (infos ! k)\<rparr>) = None"
  proof -
    have "list_rows ?o infos ?t = Crashed"
      by (rule list_rows_projection_panics [OF cl that(3) _ _ that(6)])
        (use that(4,5) in \<open>simp_all only: ns\<close>)
    then show ?thesis
      by (simp add: ok [OF that(1,2)])
  qed
  have 4: "Run EncodeTable ?o =
               ((IOStreams opts)
                  \<lparr>Out := Out (IOStreams opts)
                      @ EncodeTable
                          ([[''NAMESPACE'', ''NAME'', ''PHASE'', ''COMPLETION_TIME'',
                             ''CREATE_TIME'']]
                           @ map (\<lambda>b. [BackupJobInfo.Namespace b, BackupJobInfo.Name b,
                                        Phase b, CompletionTime b, StartTime b]) bjis),
                   ErrOut := ErrOut (IOStreams opts)
                      @ (if infos = []
                         then (if AllNamespaces opts then ''No resources found'' @ [CHR 0x0A]
                               else ''No resources found in '' @ ListOptions.Namespace opts
                                    @ '' namespace.'' @ [CHR 0x0A])
                         else [])\<rparr>,
                Returned None)"
    if "Err (newBuilder (Run_query opts)) = None" and "err = None"
      and "map (\<lambda>info. c (Resource (ResourceMapping info)) (ListOptions.Namespace opts)
                 (Info.Name info)) infos = map Inr objs"
      and "map (\<lambda>(info, obj). buildBackupJobInfo obj
                 (BackupJobInfo0\<lparr>BackupJobInfo.Namespace := Info.Namespace info,
                                  BackupJobInfo.Name := Info.Name info\<rparr>)) (zip infos objs) =
            map Some bjis"
  proof -
    have "list_rows ?o infos ?t =
       Listed (?t @ map (\<lambda>b. [BackupJobInfo.Namespace b, BackupJobInfo.Name b, Phase b,
                              CompletionTime b, StartTime b]) bjis)"
      by (rule list_rows_all_projected [OF cl _ that(4)]) (use that(3) in \<open>simp only: ns\<close>)
    then show ?thesis
      by (simp add: ok [OF that(1,2)] AddRow_def)
  qed
  show ?thesis
    apply (intro conjI impI)
       apply (erule 1)
      apply (elim conjE, erule (4) 2)
     apply (elim conjE, erule (5) 3)
    apply (elim conjE, erule (3) 4)
    done
qed

theorem Run_Get_in_resolved_namespace_witness:
  "cluster backupjobs ''prod'' ''bj6'' = Inr bj6_prod \<and>
   cluster backupjobs ''default'' ''bj6'' = Inl not_found \<and>
   Run plain_table (completed_options [listed ''prod'' ''bj6''] cluster True) =
     Run plain_table (completed_options [listed ''prod'' ''bj6''] cluster_default True) \<and>
   Run plain_table (completed_options [listed ''prod'' ''bj6''] cluster True) =
     (\<lparr>In = [], Out = [], ErrOut = []\<rparr>, Returned (Some not_found)) \<and>
   Run plain_table (completed_options [listed ''prod'' ''bj2''] cluster True) =
     (\<lparr>In = [], Out = [], ErrOut = []\<rparr>, Panicked) \<and>
   Run plain_table (completed_options [listed ''prod'' ''bj5''] cluster True) =
     (\<lparr>In = [],
       Out = plain_table
               [[''NAMESPACE'', ''NAME'', ''PHASE'', ''COMPLETION_TIME'', ''CREATE_TIME''],
                [''default'', ''bj5'', ''Completed'', ''2022-09-01T10:00:00Z'',
                 ''2022-09-01T09:00:00Z'']],
       ErrOut = []\<rparr>, Returned None)"
proof -
  have o: "(completed_options infos c0 True)\<lparr>client := Some c\<rparr> = completed_options infos c True"
    for infos c0 c
    by (simp add: completed_options_def)
  have b: "ListOptions.NewBuilder (completed_options infos cluster True) =
      Some (builder_listing infos)"
    and i: "Infos (builder_listing infos (Run_query (completed_options infos cluster True))) =
      (infos, None)" for infos
    by (simp_all add: completed_options_simps builder_listing_simps)
  note t = Run_Get_in_resolved_namespace [OF b i, where EncodeTable = plain_table]
  have "cluster backupjobs ''prod'' ''bj6'' = Inr bj6_prod"
    and "cluster backupjobs ''default'' ''bj6'' = Inl not_found"
    by (simp_all add: cluster_def cluster_default_def)
  moreover have "Run plain_table (completed_options [listed ''prod'' ''bj6''] cluster True) =
     Run plain_table (completed_options [listed ''prod'' ''bj6''] cluster_default True)"
    using t [of "[listed ''prod'' ''bj6'']" cluster cluster_default, THEN conjunct1]
    by (simp add: o completed_options_simps listed_simps cluster_def)
  moreover have "Run plain_table (completed_options [listed ''prod'' ''bj6''] cluster True) =
     (\<lparr>In = [], Out = [], ErrOut = []\<rparr>, Returned (Some not_found))"
    using t [of "[listed ''prod'' ''bj6'']" cluster _ 0 not_found,
        THEN conjunct2, THEN conjunct1]
    by (simp add: o completed_options_simps builder_listing_simps listed_simps cluster_def
        cluster_default_def)
  moreover have "Run plain_table (completed_options [listed ''prod'' ''bj2''] cluster True) =
     (\<lparr>In = [], Out = [], ErrOut = []\<rparr>, Panicked)"
    using t [of "[listed ''prod'' ''bj2'']" cluster _ 0 _ bj_status_string,
        THEN conjunct2, THEN conjunct2, THEN conjunct1]
    by (simp add: o completed_options_simps builder_listing_simps listed_simps cluster_def
        cluster_default_def project_bj2)
  moreover have "Run plain_table (completed_options [listed ''prod'' ''bj5''] cluster True) =
     (\<lparr>In = [],
       Out = plain_table
               [[''NAMESPACE'', ''NAME'', ''PHASE'', ''COMPLETION_TIME'', ''CREATE_TIME''],
                [''default'', ''bj5'', ''Completed'', ''2022-09-01T10:00:00Z'',
                 ''2022-09-01T09:00:00Z'']],
       ErrOut = []\<rparr>, Returned None)"
    using t [of "[listed ''prod'' ''bj5'']" cluster _ _ _ _ "[bj5_completed]"
        "[\<lparr>BackupJobInfo.Namespace = ''default'', Name = ''bj5'', Phase = ''Completed'',
          CompletionTime = ''2022-09-01T10:00:00Z'', StartTime = ''2022-09-01T09:00:00Z'',
          Labels = []\<rparr>]",
        THEN conjunct2, THEN conjunct2, THEN conjunct2]
    by (simp add: o completed_options_simps builder_listing_simps listed_simps cluster_def
        cluster_default_def project_bj5)
  ultimately show ?thesis by simp
qed

section \<open>Complete: properties\<close>

text \<open>
  A failure of the namespace resolution and a failure of \<^verbatim>\<open>dynamic.NewForConfig\<close>
  are returned.
\<close>

lemma Complete_Namespace_failure:
  assumes "ToRawKubeConfigLoader_Namespace f = (ns, enforce, Some e)"
  shows "snd (Complete BackupJobSourceName NewForConfig opts f args) = Some e"
  using assms by (simp add: Complete_def)

lemma Complete_NewForConfig_failure:
  assumes "ToRawKubeConfigLoader_Namespace f = (ns, enforce, None)"
    and "ToRESTConfig f = Inr config"
    and "NewForConfig config = Inl e"
  shows "snd (Complete BackupJobSourceName NewForConfig opts f args) = Some e"
  using assms by (simp add: Complete_def Let_def)

text \<open>
  C1 holds of those two failures, and not of the third. When the namespace resolution
  succeeds and \<^verbatim>\<open>ToRESTConfig\<close> fails, \<open>Complete\<close> returns nil, and it leaves
  \<open>client\<close> and \<open>NewBuilder\<close> as they were. In the example they were nil, as
  \<open>NewListCmd\<close> leaves them, and the \<open>Run\<close> that follows panics.
\<close>

theorem Complete_ToRESTConfig_failure:
  assumes "ToRawKubeConfigLoader_Namespace f = (ns, enforce, None)"
    and "ToRESTConfig f = Inl e"
  shows "snd (Complete BackupJobSourceName NewForConfig opts f args) = None \<and>
     client (fst (Complete BackupJobSourceName NewForConfig opts f args)) = client opts \<and>
     ListOptions.NewBuilder (fst (Complete BackupJobSourceName NewForConfig opts f args)) =
       ListOptions.NewBuilder opts"
  using assms by (simp add: Complete_def Let_def)

theorem Complete_ToRESTConfig_failure_witness:
  "ToRESTConfig (factory True (Inl (errorString ''no configuration''))) =
     Inl (errorString ''no configuration'') \<and>
   snd (Complete ''backupjobs'' (\<lambda>config. Inr cluster)
          (NewListCmd \<lparr>In = [], Out = [], ErrOut = []\<rparr>)
          (factory True (Inl (errorString ''no configuration''))) [''bj1'']) = None \<and>
   Run plain_table (fst (Complete ''backupjobs'' (\<lambda>config. Inr cluster)
          (NewListCmd \<lparr>In = [], Out = [], ErrOut = []\<rparr>)
          (factory True (Inl (errorString ''no configuration''))) [''bj1''])) =
     (\<lparr>In = [], Out = [], ErrOut = []\<rparr>, Panicked)"
proof -
  let ?f = "factory True (Inl (errorString ''no configuration''))"
  let ?o = "NewListCmd \<lparr>In = [], Out = [], ErrOut = []\<rparr>"
  have a: "ToRawKubeConfigLoader_Namespace ?f = (''default'', True, None)"
    and b: "ToRESTConfig ?f = Inl (errorString ''no configuration'')"
    by (simp_all add: factory_def)
  note c = Complete_ToRESTConfig_failure [OF a b, of "''backupjobs''" "\<lambda>config. Inr cluster" ?o
      "[''bj1'']"]
  have "ListOptions.NewBuilder ?o = None"
    by (simp add: NewListCmd_def)
  with c have "ListOptions.NewBuilder (fst (Complete ''backupjobs'' (\<lambda>config. Inr cluster) ?o ?f
      [''bj1''])) = None"
    by simp
  then have "Run plain_table (fst (Complete ''backupjobs'' (\<lambda>config. Inr cluster) ?o ?f [''bj1''])) =
      (IOStreams (fst (Complete ''backupjobs'' (\<lambda>config. Inr cluster) ?o ?f [''bj1''])), Panicked)"
    by (simp add: Run_def)
  moreover have "IOStreams (fst (Complete ''backupjobs'' (\<lambda>config. Inr cluster) ?o ?f [''bj1''])) =
      \<lparr>In = [], Out = [], ErrOut = []\<rparr>"
    by (simp add: Complete_def Let_def factory_def NewListCmd_def)
  ultimately show ?thesis
    using b c by simp
qed

text \<open>
  C9. When \<open>Complete\<close> returns nil, \<open>BuilderArgs\<close> is the resource name of the backup
  jobs followed by the positional arguments, in their order; and when all namespaces were
  asked for, \<open>EnforceNamespace\<close> is false, also when the namespace resolution returned
  true for it.
\<close>

theorem Complete_success:
  assumes "Complete BackupJobSourceName NewForConfig opts f args = (opts', None)"
  shows "(AllNamespaces opts \<longrightarrow> \<not> EnforceNamespace opts') \<and>
     BuilderArgs opts' = BackupJobSourceName # args"
  using assms
  by (auto simp: Complete_def Let_def split: prod.splits if_splits sum.splits)

theorem Complete_success_witness:
  "fst (snd (ToRawKubeConfigLoader_Namespace (factory True (Inr \<lparr>Host = ''cluster.local''\<rparr>)))) \<and>
   snd (Complete ''backupjobs'' (\<lambda>config. Inr cluster)
          ((NewListCmd \<lparr>In = [], Out = [], ErrOut = []\<rparr>)\<lparr>AllNamespaces := True\<rparr>)
          (factory True (Inr \<lparr>Host = ''cluster.local''\<rparr>)) [''bj1'', ''bj5'']) = None \<and>
   \<not> EnforceNamespace (fst (Complete ''backupjobs'' (\<lambda>config. Inr cluster)
          ((NewListCmd \<lparr>In = [], Out = [], ErrOut = []\<rparr>)\<lparr>AllNamespaces := True\<rparr>)
          (factory True (Inr \<lparr>Host = ''cluster.local''\<rparr>)) [''bj1'', ''bj5''])) \<and>
   BuilderArgs (fst (Complete ''backupjobs'' (\<lambda>config. Inr cluster)
          ((NewListCmd \<lparr>In = [], Out = [], ErrOut = []\<rparr>)\<lparr>AllNamespaces := True\<rparr>)
          (factory True (Inr \<lparr>Host = ''cluster.local''\<rparr>)) [''bj1'', ''bj5''])) =
     [''backupjobs'', ''bj1'', ''bj5'']"
proof -
  let ?f = "factory True (Inr \<lparr>Host = ''cluster.local''\<rparr>)"
  let ?o = "(NewListCmd \<lparr>In = [], Out = [], ErrOut = []\<rparr>)\<lparr>AllNamespaces := True\<rparr>"
  let ?r = "Complete ''backupjobs'' (\<lambda>config. Inr cluster) ?o ?f [''bj1'', ''bj5'']"
  have ok: "snd ?r = None"
    by (simp add: Complete_def Let_def factory_def)
  then have "?r = (fst ?r, None)"
    by (metis prod.collapse)
  from Complete_success [OF this] have
    "(AllNamespaces ?o \<longrightarrow> \<not> EnforceNamespace (fst ?r)) \<and>
     BuilderArgs (fst ?r) = ''backupjobs'' # [''bj1'', ''bj5'']" .
  moreover have "AllNamespaces ?o"
    by simp
  moreover have "fst (snd (ToRawKubeConfigLoader_Namespace ?f))"
    by (simp add: factory_def)
  ultimately show ?thesis
    using ok by simp
qed

end
